theory Spec2Isabelle
  imports Main
begin

section \<open>Document governance pipeline (main.py)\<close>

text \<open>
  A shallow embedding of \<^verbatim>\<open>main.py\<close>: the extraction, classification and routing
  functions, over an explicit world (file system, audit log, trace of external calls) and
  an environment that fixes how the external collaborators (PyMuPDF, the generative
  service, the clock, the operating system) answer.

  Python strings are modelled as \<^typ>\<open>string\<close>; a \<^typ>\<open>char\<close> stands for the code
  point of the same number, so the strings of this development are those whose code
  points are below 256.
\<close>

subsection \<open>Python strings\<close>

text \<open>\<^verbatim>\<open>str.isspace\<close> on one character, for the code points below 256.\<close>

definition isspace :: "char \<Rightarrow> bool" where
  "isspace c = (c \<in> set [CHR 0x09, CHR 0x0A, CHR 0x0B, CHR 0x0C, CHR 0x0D,
                           CHR 0x1C, CHR 0x1D, CHR 0x1E, CHR 0x1F, CHR 0x20,
                           CHR 0x85, CHR 0xA0])"

text \<open>\<^verbatim>\<open>s.strip()\<close>: leading and trailing whitespace removed.\<close>

definition lstrip :: "string \<Rightarrow> string" where
  "lstrip s = dropWhile isspace s"

definition rstrip :: "string \<Rightarrow> string" where
  "rstrip s = rev (dropWhile isspace (rev s))"

definition strip :: "string \<Rightarrow> string" where
  "strip s = rstrip (lstrip s)"

text \<open>\<^verbatim>\<open>s.split(sep)\<close> for a one-character separator: every occurrence splits.\<close>

fun str_split :: "char \<Rightarrow> string \<Rightarrow> string list" where
  "str_split sep [] = [[]]"
| "str_split sep (c # cs) =
     (if c = sep then [] # str_split sep cs
      else (case str_split sep cs of
              w # ws \<Rightarrow> (c # w) # ws
            | [] \<Rightarrow> [[c]]))"

text \<open>\<^verbatim>\<open>s.replace(old, new)\<close> for one-character \<open>old\<close> and \<open>new\<close>.\<close>

definition replace :: "char \<Rightarrow> char \<Rightarrow> string \<Rightarrow> string" where
  "replace old new s = map (\<lambda>c. if c = old then new else c) s"

subsection \<open>Exceptions\<close>

text \<open>An exception is its class name and its message (\<^verbatim>\<open>str(e)\<close>).\<close>

datatype py_exception = PyExc string string

fun str_exc :: "py_exception \<Rightarrow> string" where
  "str_exc (PyExc cls msg) = msg"

text \<open>\<^verbatim>\<open>xs[i]\<close> for \<open>i \<ge> 0\<close>: IndexError out of range.\<close>

definition index :: "'a list \<Rightarrow> nat \<Rightarrow> py_exception + 'a" where
  "index xs i =
     (if i < length xs then Inr (xs ! i)
      else Inl (PyExc ''IndexError'' ''list index out of range''))"

subsection \<open>Paths (posixpath)\<close>

type_synonym path = string

definition os_path_join :: "path \<Rightarrow> path \<Rightarrow> path" where
  "os_path_join a b =
     (if b \<noteq> [] \<and> hd b = CHR ''/'' then b
      else if a = [] \<or> last a = CHR ''/'' then a @ b
      else a @ ''/'' @ b)"

definition basename :: "path \<Rightarrow> string" where
  "basename p = rev (takeWhile (\<lambda>c. c \<noteq> CHR ''/'') (rev p))"

subsection \<open>The world and the environment\<close>

text \<open>
  The file system maps the resolved form of a path to a node. Resolution is lexical, as
  the operating system does it for a path without symbolic links: a path is cut at every
  \<^verbatim>\<open>/\<close>, empty and \<^verbatim>\<open>.\<close> components are dropped, and an absolute path keeps a
  leading root component. The components \<^verbatim>\<open>..\<close> and symbolic links are not interpreted.
  The working directory (the empty key) and the root are directories unless the map says
  otherwise.
\<close>

datatype node = File string | Dir

type_synonym key = "string list"

type_synonym filesystem = "key \<rightharpoonup> node"

definition resolve :: "path \<Rightarrow> key" where
  "resolve p =
     (if p \<noteq> [] \<and> hd p = CHR ''/'' then [''/''] else []) @
     filter (\<lambda>c. c \<noteq> [] \<and> c \<noteq> ''.'') (str_split (CHR ''/'') p)"

definition key_isdir :: "filesystem \<Rightarrow> key \<Rightarrow> bool" where
  "key_isdir f k =
     (case f k of
        Some n \<Rightarrow> n = Dir
      | None \<Rightarrow> k = [] \<or> k = [''/''])"

text \<open>\<^verbatim>\<open>os.path.isdir\<close> and \<^verbatim>\<open>os.path.exists\<close>.\<close>

definition isdir :: "filesystem \<Rightarrow> path \<Rightarrow> bool" where
  "isdir f p = key_isdir f (resolve p)"

definition path_exists :: "filesystem \<Rightarrow> path \<Rightarrow> bool" where
  "path_exists f p = (isdir f p \<or> f (resolve p) \<noteq> None)"

text \<open>The error of a system call whose target's parent is not a directory.\<close>

definition parent_error :: "filesystem \<Rightarrow> key \<Rightarrow> py_exception option" where
  "parent_error f k =
     (if key_isdir f (butlast k) then None
      else if f (butlast k) = None
        then Some (PyExc ''FileNotFoundError'' ''No such file or directory'')
      else Some (PyExc ''NotADirectoryError'' ''Not a directory''))"

datatype level = INFO | ERROR

text \<open>The calls that leave the program, in the order they are made.\<close>

datatype call =
    FitzOpen path
  | GenerateContent string
  | Mkdir path
  | Move path path
  | Print string

record world =
  fs :: filesystem
  audit_log :: "(level \<times> string) list"
  calls :: "call list"

type_synonym 'a result = "(py_exception + 'a) \<times> world"

text \<open>
  The environment fixes what the program cannot decide: what PyMuPDF reads from a path
  (the document's pages, each giving its text or raising), what the service answers to a
  prompt (\<^verbatim>\<open>model.generate_content(prompt).text\<close>, or the exception either step
  raises), the date the clock gives, and the failures of the operating system that the
  file system's contents do not explain (permissions, a full or a different volume).
  A copy can fail before it writes, or after it has written a part of the file.
  \<open>move_tree\<close> is \<^verbatim>\<open>shutil.move\<close> on a source that is a directory, which this
  development leaves unconstrained.
\<close>

record env =
  fitz_open :: "filesystem \<Rightarrow> path \<Rightarrow> py_exception + (py_exception + string) list"
  generate_content :: "string \<Rightarrow> py_exception + string"
  strftime_Ymd :: string
  mkdir_fault :: "py_exception option"
  rename_fault :: "py_exception option"
  copy_fault :: "(py_exception \<times> string option) option"
  unlink_fault :: "py_exception option"
  print_fault :: "py_exception option"
  move_tree :: "path \<Rightarrow> path \<Rightarrow> filesystem \<Rightarrow> (py_exception + path) \<times> filesystem"

definition logging_info :: "string \<Rightarrow> world \<Rightarrow> world" where
  "logging_info msg w = w\<lparr>audit_log := audit_log w @ [(INFO, msg)]\<rparr>"

definition logging_error :: "string \<Rightarrow> world \<Rightarrow> world" where
  "logging_error msg w = w\<lparr>audit_log := audit_log w @ [(ERROR, msg)]\<rparr>"

definition called :: "call \<Rightarrow> world \<Rightarrow> world" where
  "called c w = w\<lparr>calls := calls w @ [c]\<rparr>"

definition py_print :: "env \<Rightarrow> string \<Rightarrow> world \<Rightarrow> unit result" where
  "py_print E s w =
     (case print_fault E of
        Some e \<Rightarrow> (Inl e, called (Print s) w)
      | None \<Rightarrow> (Inr (), called (Print s) w))"

subsection \<open>The file system calls of the router\<close>

text \<open>
  \<^verbatim>\<open>Path(p).mkdir(exist_ok=True)\<close>: \<open>parents\<close> is left at False, so a missing parent
  raises; an existing directory is accepted, an existing file is not.
\<close>

definition path_mkdir ::
  "env \<Rightarrow> path \<Rightarrow> filesystem \<Rightarrow> (py_exception + unit) \<times> filesystem" where
  "path_mkdir E p f =
     (let k = resolve p in
      if key_isdir f k then (Inr (), f)
      else if f k \<noteq> None then (Inl (PyExc ''FileExistsError'' ''File exists''), f)
      else (case parent_error f k of
              Some e \<Rightarrow> (Inl e, f)
            | None \<Rightarrow>
                (case mkdir_fault E of
                   Some e \<Rightarrow> (Inl e, f)
                 | None \<Rightarrow> (Inr (), f(k \<mapsto> Dir)))))"

text \<open>
  \<^verbatim>\<open>os.rename(src, dst)\<close> for a source that is a regular file or absent: the
  destination entry is replaced in one step.
\<close>

definition os_rename :: "env \<Rightarrow> path \<Rightarrow> path \<Rightarrow> filesystem \<Rightarrow> py_exception + filesystem" where
  "os_rename E src dst f =
     (let s = resolve src; d = resolve dst in
      case f s of
        Some (File c) \<Rightarrow>
          (case parent_error f d of
             Some e \<Rightarrow> Inl e
           | None \<Rightarrow>
               if key_isdir f d then Inl (PyExc ''IsADirectoryError'' ''Is a directory'')
               else (case rename_fault E of
                       Some e \<Rightarrow> Inl e
                     | None \<Rightarrow> Inr ((f(s := None))(d \<mapsto> File c))))
      | _ \<Rightarrow> Inl (PyExc ''FileNotFoundError'' ''No such file or directory''))"

text \<open>\<^verbatim>\<open>shutil.copy2(src, dst)\<close>: into \<open>dst\<close> when it is a directory, over it otherwise.\<close>

definition shutil_copy2 ::
  "env \<Rightarrow> path \<Rightarrow> path \<Rightarrow> filesystem \<Rightarrow> (py_exception + unit) \<times> filesystem" where
  "shutil_copy2 E src dst f =
     (let dst' = (if isdir f dst then os_path_join dst (basename src) else dst);
          s = resolve src; d = resolve dst' in
      case f s of
        Some (File c) \<Rightarrow>
          if s = d then (Inl (PyExc ''SameFileError'' ''are the same file''), f)
          else (case parent_error f d of
                  Some e \<Rightarrow> (Inl e, f)
                | None \<Rightarrow>
                    if key_isdir f d
                    then (Inl (PyExc ''IsADirectoryError'' ''Is a directory''), f)
                    else (case copy_fault E of
                            None \<Rightarrow> (Inr (), f(d \<mapsto> File c))
                          | Some (e, None) \<Rightarrow> (Inl e, f)
                          | Some (e, Some part) \<Rightarrow> (Inl e, f(d \<mapsto> File part))))
      | Some Dir \<Rightarrow> (Inl (PyExc ''IsADirectoryError'' ''Is a directory''), f)
      | None \<Rightarrow> (Inl (PyExc ''FileNotFoundError'' ''No such file or directory''), f))"

definition os_unlink :: "env \<Rightarrow> path \<Rightarrow> filesystem \<Rightarrow> py_exception + filesystem" where
  "os_unlink E p f =
     (case f (resolve p) of
        Some (File c) \<Rightarrow>
          (case unlink_fault E of
             Some e \<Rightarrow> Inl e
           | None \<Rightarrow> Inr (f(resolve p := None)))
      | Some Dir \<Rightarrow> Inl (PyExc ''IsADirectoryError'' ''Is a directory'')
      | None \<Rightarrow> Inl (PyExc ''FileNotFoundError'' ''No such file or directory''))"

text \<open>
  \<^verbatim>\<open>shutil.move(src, dst)\<close>: into \<open>dst\<close> when it is a directory (refusing an
  existing entry there); a rename first, and when the rename raises, a copy followed by
  the removal of the source.
\<close>

definition shutil_move ::
  "env \<Rightarrow> path \<Rightarrow> path \<Rightarrow> filesystem \<Rightarrow> (py_exception + path) \<times> filesystem" where
  "shutil_move E src dst f =
     (if f (resolve src) = Some Dir then move_tree E src dst f
      else
        let real_dst = (if isdir f dst then os_path_join dst (basename src) else dst) in
        if isdir f dst \<and> path_exists f real_dst
        then (Inl (PyExc ''Error''
                (''Destination path '' @ [CHR 0x27] @ real_dst @ [CHR 0x27] @ '' already exists'')), f)
        else (case os_rename E src real_dst f of
                Inr f' \<Rightarrow> (Inr real_dst, f')
              | Inl _ \<Rightarrow>
                  (case shutil_copy2 E src real_dst f of
                     (Inl e, f') \<Rightarrow> (Inl e, f')
                   | (Inr _, f') \<Rightarrow>
                       (case os_unlink E src f' of
                          Inl e \<Rightarrow> (Inl e, f')
                        | Inr f'' \<Rightarrow> (Inr real_dst, f'')))))"

text \<open>A call on the file system made by the program: traced, its effect stored.\<close>

definition syscall ::
  "call \<Rightarrow> (filesystem \<Rightarrow> (py_exception + 'a) \<times> filesystem) \<Rightarrow> world \<Rightarrow> 'a result" where
  "syscall c operation w =
     (case operation (fs w) of (r, f') \<Rightarrow> (r, (called c w)\<lparr>fs := f'\<rparr>))"

subsection \<open>Configuration\<close>

definition WATCH_DIR :: path where
  "WATCH_DIR = ''./dropzone''"

definition PROCESSED_DIR :: path where
  "PROCESSED_DIR = ''./organized_docs''"

subsection \<open>Extraction\<close>

text \<open>The loop over the pages: the texts are appended in order; a page that raises ends it.\<close>

fun get_text_of_pages :: "(py_exception + string) list \<Rightarrow> string \<Rightarrow> py_exception + string" where
  "get_text_of_pages [] text = Inr text"
| "get_text_of_pages (Inl e # pages) text = Inl e"
| "get_text_of_pages (Inr t # pages) text = get_text_of_pages pages (text @ t)"

text \<open>\<^verbatim>\<open>extract_text_from_pdf\<close>: the text, or None (logged) when anything raises.\<close>

definition extract_text_from_pdf :: "env \<Rightarrow> path \<Rightarrow> world \<Rightarrow> string option \<times> world" where
  "extract_text_from_pdf E file_path w =
     (let w1 = called (FitzOpen file_path) w;
          attempt = (case fitz_open E (fs w1) file_path of
                       Inl e \<Rightarrow> Inl e
                     | Inr doc \<Rightarrow> get_text_of_pages doc [])
      in case attempt of
           Inr text \<Rightarrow> (Some text, w1)
         | Inl e \<Rightarrow>
             (None, logging_error (''Failed to read PDF '' @ file_path @ '': '' @ str_exc e) w1))"

subsection \<open>Classification\<close>

definition prompt_template :: string where
  "prompt_template =
     ''\<newline>    Analyze the following document text. '' @
     ''\<newline>    1. Classify it into ONE of these categories: Invoice, Contract, HR_Policy, Technical_Spec, or Other.'' @
     ''\<newline>    2. Extract a brief, 3-word summary of the subject.'' @
     ''\<newline>    '' @
     ''\<newline>    Format your response EXACTLY like this:'' @
     ''\<newline>    Category | Summary'' @
     ''\<newline>    '' @
     ''\<newline>    Text snippet:'' @
     ''\<newline>    ''"

text \<open>
  The body of the \<^verbatim>\<open>try\<close> of \<^verbatim>\<open>analyze_document_with_ai\<close> on the service's answer:
  the stripped response is split at every bar; the first field, stripped, is the
  category; the second field, stripped, with each space replaced by an underscore, is the
  summary. A response without a bar has no second field and raises IndexError.
\<close>

definition parse_response :: "string \<Rightarrow> py_exception + string \<times> string" where
  "parse_response response_text =
     (let result = str_split (CHR ''|'') (strip response_text) in
      case index result 0 of
        Inl e \<Rightarrow> Inl e
      | Inr r0 \<Rightarrow>
          (let category = strip r0 in
           case index result 1 of
             Inl e \<Rightarrow> Inl e
           | Inr r1 \<Rightarrow>
               (let summary = replace (CHR '' '') (CHR ''_'') (strip r1) in
                Inr (category, summary))))"

text \<open>
  \<^verbatim>\<open>analyze_document_with_ai\<close>: the prompt carries the first 2000 characters of the
  text; whatever the \<^verbatim>\<open>try\<close> raises is logged and answered by the default pair.
\<close>

definition analyze_document_with_ai :: "env \<Rightarrow> string \<Rightarrow> world \<Rightarrow> (string \<times> string) result" where
  "analyze_document_with_ai E text w =
     (let prompt = prompt_template @ take 2000 text;
          w1 = called (GenerateContent prompt) w;
          attempt = (case generate_content E prompt of
                       Inl e \<Rightarrow> Inl e
                     | Inr response_text \<Rightarrow> parse_response response_text)
      in case attempt of
           Inr (category, summary) \<Rightarrow> (Inr (category, summary), w1)
         | Inl e \<Rightarrow>
             (Inr (''Unclassified'', ''Unknown_Subject''),
              logging_error (''AI API Error: '' @ str_exc e) w1))"

subsection \<open>The workflow\<close>

text \<open>
  The exits of \<^verbatim>\<open>process_new_file\<close>: the early return after extraction (Skipped),
  the end of the \<^verbatim>\<open>try\<close> around the move (Routed), its \<^verbatim>\<open>except\<close> (Failed). An
  exception that no handler catches leaves the function: the result is then \<open>Inl\<close>.
\<close>

datatype outcome = Skipped | Routed | Failed

definition new_filename_of :: "string \<Rightarrow> string \<Rightarrow> string \<Rightarrow> string" where
  "new_filename_of timestamp category context_summary =
     timestamp @ ''_'' @ category @ ''_'' @ context_summary @ ''.pdf''"

text \<open>The directory and the path the router computes for a category and a summary.\<close>

definition target_folder_of :: "string \<Rightarrow> path" where
  "target_folder_of category = os_path_join PROCESSED_DIR category"

definition new_file_path_of :: "env \<Rightarrow> string \<Rightarrow> string \<Rightarrow> path" where
  "new_file_path_of E category context_summary =
     os_path_join (target_folder_of category)
       (new_filename_of (strftime_Ymd E) category context_summary)"

definition detected_message :: "string \<Rightarrow> string" where
  "detected_message filename = ''New file detected: '' @ filename @ ''. Starting processing...''"

definition success_message :: "string \<Rightarrow> path \<Rightarrow> string" where
  "success_message filename new_file_path =
     ''SUCCESS: Routed '' @ [CHR 0x27] @ filename @ [CHR 0x27] @
     '' to '' @ [CHR 0x27] @ new_file_path @ [CHR 0x27]"

definition failure_message :: "string \<Rightarrow> py_exception \<Rightarrow> string" where
  "failure_message filename e = ''Failed to route file '' @ filename @ '': '' @ str_exc e"

text \<open>
  \<^verbatim>\<open>process_new_file\<close>. The directory is made outside the \<^verbatim>\<open>try\<close>; the move, the
  success record and the status line are inside it. The status line is printed without
  its leading check mark, a code point above 255.
\<close>

definition process_new_file :: "env \<Rightarrow> path \<Rightarrow> world \<Rightarrow> outcome result" where
  "process_new_file E file_path w =
     (let filename = basename file_path;
          w1 = logging_info (detected_message filename) w
      in case extract_text_from_pdf E file_path w1 of
           (None, w2) \<Rightarrow> (Inr Skipped, w2)
         | (Some text, w2) \<Rightarrow>
             if text = [] then (Inr Skipped, w2)
             else
               (case analyze_document_with_ai E text w2 of
                  (Inl e, w3) \<Rightarrow> (Inl e, w3)
                | (Inr (category, context_summary), w3) \<Rightarrow>
                    (let target_folder = os_path_join PROCESSED_DIR category in
                     case syscall (Mkdir target_folder) (path_mkdir E target_folder) w3 of
                       (Inl e, w4) \<Rightarrow> (Inl e, w4)
                     | (Inr _, w4) \<Rightarrow>
                         (let timestamp = strftime_Ymd E;
                              new_filename = new_filename_of timestamp category context_summary;
                              new_file_path = os_path_join target_folder new_filename
                          in case syscall (Move file_path new_file_path)
                                    (shutil_move E file_path new_file_path) w4 of
                               (Inl e, w5) \<Rightarrow>
                                 (Inr Failed, logging_error (failure_message filename e) w5)
                             | (Inr _, w5) \<Rightarrow>
                                 (let w6 = logging_info (success_message filename new_file_path) w5
                                  in case py_print E (''Processed: '' @ new_filename) w6 of
                                       (Inl e, w7) \<Rightarrow>
                                         (Inr Failed,
                                          logging_error (failure_message filename e) w7)
                                     | (Inr _, w7) \<Rightarrow> (Inr Routed, w7))))))"

subsection \<open>Where a move puts a file\<close>

text \<open>The path \<^verbatim>\<open>shutil.move\<close> writes to: inside \<open>dst\<close> when \<open>dst\<close> is a directory.\<close>

definition real_dst_of :: "filesystem \<Rightarrow> path \<Rightarrow> path \<Rightarrow> path" where
  "real_dst_of f src dst = (if isdir f dst then os_path_join dst (basename src) else dst)"

subsection \<open>The fields of a response\<close>

text \<open>The text before the first bar, and the text after it.\<close>

definition first_field :: "string \<Rightarrow> string" where
  "first_field s = takeWhile (\<lambda>c. c \<noteq> CHR ''|'') s"

definition after_first_bar :: "string \<Rightarrow> string" where
  "after_first_bar s = tl (dropWhile (\<lambda>c. c \<noteq> CHR ''|'') s)"

subsection \<open>The summary as the specification words it\<close>

text \<open>
  The specification's normalisation, kept apart from the code's: the remainder of the
  response after the first bar, trimmed, every run of whitespace replaced by a single
  underscore.
\<close>

fun spec_collapse :: "bool \<Rightarrow> string \<Rightarrow> string" where
  "spec_collapse in_run [] = []"
| "spec_collapse in_run (c # cs) =
     (if isspace c
      then (if in_run then spec_collapse True cs else CHR ''_'' # spec_collapse True cs)
      else c # spec_collapse False cs)"

definition spec_summary :: "string \<Rightarrow> string" where
  "spec_summary response = spec_collapse False (strip (after_first_bar response))"

subsection \<open>A sample environment and world\<close>

text \<open>
  A reader that finds one page holding the file's contents and refuses an empty file;
  a service that gives one fixed answer; the date 2024-01-15; an operating system
  without faults. The world has the drop zone with three files and an empty archive.
\<close>

definition pdf_reader :: "filesystem \<Rightarrow> path \<Rightarrow> py_exception + (py_exception + string) list" where
  "pdf_reader f p =
     (case f (resolve p) of
        Some (File c) \<Rightarrow>
          if c = [] then Inl (PyExc ''EmptyFileError'' ''Cannot open empty file'')
          else Inr [Inr c]
      | _ \<Rightarrow> Inl (PyExc ''FileNotFoundError'' ''no such file''))"

definition scenario_env :: "(py_exception + string) \<Rightarrow> env" where
  "scenario_env answer =
     \<lparr>fitz_open = pdf_reader,
      generate_content = (\<lambda>prompt. answer),
      strftime_Ymd = ''20240115'',
      mkdir_fault = None, rename_fault = None, copy_fault = None,
      unlink_fault = None, print_fault = None,
      move_tree = (\<lambda>src dst f. (Inl (PyExc ''OSError'' ''Directory not moved''), f))\<rparr>"

definition scenario_fs :: filesystem where
  "scenario_fs =
     [[''dropzone''] \<mapsto> Dir,
      [''organized_docs''] \<mapsto> Dir,
      [''dropzone'', ''invoice_q1.pdf''] \<mapsto> File ''Invoice #123 from Acme'',
      [''dropzone'', ''invoice_q1_copy.pdf''] \<mapsto> File ''Invoice #123 from Acme, second copy'',
      [''dropzone'', ''bad.pdf''] \<mapsto> File '''']"

definition scenario_world :: world where
  "scenario_world = \<lparr>fs = scenario_fs, audit_log = [], calls = []\<rparr>"

text \<open>
  The archive after \<^verbatim>\<open>invoice_q1.pdf\<close> has been routed, and an environment whose
  operating system refuses the rename, the copy or the removal of the source.
\<close>

definition archived_fs :: filesystem where
  "archived_fs =
     (scenario_fs([''organized_docs'', ''Invoice''] \<mapsto> Dir))
       ([''dropzone'', ''invoice_q1.pdf''] := None,
        [''organized_docs'', ''Invoice'', ''20240115_Invoice_Acme_Q1_Invoice.pdf''] \<mapsto>
          File ''Invoice #123 from Acme'')"

definition archived_world :: world where
  "archived_world = \<lparr>fs = archived_fs, audit_log = [], calls = []\<rparr>"

definition faulty_env ::
  "py_exception option \<Rightarrow> (py_exception \<times> string option) option \<Rightarrow> py_exception option \<Rightarrow> env" where
  "faulty_env rename_raises copy_raises unlink_raises =
     (scenario_env (Inr ''Invoice | Acme Q1 Invoice''))
       \<lparr>rename_fault := rename_raises, copy_fault := copy_raises, unlink_fault := unlink_raises\<rparr>"

section \<open>Basic facts\<close>

subsection \<open>Updates of the world\<close>

lemma logging_info_simps [simp]:
  "fs (logging_info m w) = fs w" "calls (logging_info m w) = calls w"
  "audit_log (logging_info m w) = audit_log w @ [(INFO, m)]"
  by (simp_all add: logging_info_def)

lemma logging_error_simps [simp]:
  "fs (logging_error m w) = fs w" "calls (logging_error m w) = calls w"
  "audit_log (logging_error m w) = audit_log w @ [(ERROR, m)]"
  by (simp_all add: logging_error_def)

lemma called_simps [simp]:
  "fs (called c w) = fs w" "calls (called c w) = calls w @ [c]"
  "audit_log (called c w) = audit_log w"
  by (simp_all add: called_def)

lemma syscall_simps [simp]:
  "fst (syscall c operation w) = fst (operation (fs w))"
  "fs (snd (syscall c operation w)) = snd (operation (fs w))"
  "calls (snd (syscall c operation w)) = calls w @ [c]"
  "audit_log (snd (syscall c operation w)) = audit_log w"
  by (simp_all add: syscall_def split: prod.splits)

lemma py_print_simps [simp]:
  "fst (py_print E s w) = (case print_fault E of Some e \<Rightarrow> Inl e | None \<Rightarrow> Inr ())"
  "fs (snd (py_print E s w)) = fs w"
  "calls (snd (py_print E s w)) = calls w @ [Print s]"
  "audit_log (snd (py_print E s w)) = audit_log w"
  by (simp_all add: py_print_def split: option.splits)

subsection \<open>Extraction and classification\<close>

text \<open>
  Extraction and classification leave the file system alone, each adds one call to the
  trace, and what they return does not depend on the log or on the trace.
\<close>

lemma extract_fs [simp]: "fs (snd (extract_text_from_pdf E p w)) = fs w"
  by (simp add: extract_text_from_pdf_def Let_def split: sum.splits)

lemma extract_calls [simp]: "calls (snd (extract_text_from_pdf E p w)) = calls w @ [FitzOpen p]"
  by (simp add: extract_text_from_pdf_def Let_def split: sum.splits)

lemma extract_fst_cong:
  "fs w = fs w' \<Longrightarrow> fst (extract_text_from_pdf E p w) = fst (extract_text_from_pdf E p w')"
  by (simp add: extract_text_from_pdf_def Let_def split: sum.splits)

lemma extract_fst_logging [simp]:
  "fst (extract_text_from_pdf E p (logging_info m w)) = fst (extract_text_from_pdf E p w)"
  by (rule extract_fst_cong) simp

lemma extract_log_Some:
  "fst (extract_text_from_pdf E p w) = Some text \<Longrightarrow>
   audit_log (snd (extract_text_from_pdf E p w)) = audit_log w"
  by (auto simp: extract_text_from_pdf_def Let_def split: sum.splits)

text \<open>
  Extraction returns None exactly when opening the document or reading a page raises.
\<close>

lemma extract_None_iff:
  "fst (extract_text_from_pdf E p w) = None \<longleftrightarrow>
     (\<exists>e. fitz_open E (fs w) p = Inl e) \<or>
     (\<exists>doc e. fitz_open E (fs w) p = Inr doc \<and> get_text_of_pages doc [] = Inl e)"
  by (auto simp: extract_text_from_pdf_def Let_def split: sum.splits)

lemma analyze_fs [simp]: "fs (snd (analyze_document_with_ai E text w)) = fs w"
  by (simp add: analyze_document_with_ai_def Let_def split: sum.splits prod.splits)

lemma analyze_calls [simp]:
  "calls (snd (analyze_document_with_ai E text w)) =
     calls w @ [GenerateContent (prompt_template @ take 2000 text)]"
  by (simp add: analyze_document_with_ai_def Let_def split: sum.splits prod.splits)

lemma analyze_fst_indep:
  "fst (analyze_document_with_ai E text w) = fst (analyze_document_with_ai E text w')"
  by (simp add: analyze_document_with_ai_def Let_def split: sum.splits prod.splits)

lemma analyze_returns:
  "\<exists>category summary. fst (analyze_document_with_ai E text w) = Inr (category, summary)"
  by (simp add: analyze_document_with_ai_def Let_def split: sum.splits prod.splits)

lemma analyze_fst:
  "fst (analyze_document_with_ai E text w) =
     (case generate_content E (prompt_template @ take 2000 text) of
        Inl e \<Rightarrow> Inr (''Unclassified'', ''Unknown_Subject'')
      | Inr response \<Rightarrow>
          (case parse_response response of
             Inl e \<Rightarrow> Inr (''Unclassified'', ''Unknown_Subject'')
           | Inr cs \<Rightarrow> Inr cs))"
  by (simp add: analyze_document_with_ai_def Let_def split: sum.splits prod.splits)

lemma analyze_log_prefix:
  "\<exists>l. audit_log (snd (analyze_document_with_ai E text w)) = audit_log w @ l"
  by (simp add: analyze_document_with_ai_def Let_def split: sum.splits prod.splits)

lemma analyze_log_cong:
  "audit_log w = audit_log w' \<Longrightarrow>
   audit_log (snd (analyze_document_with_ai E text w)) =
     audit_log (snd (analyze_document_with_ai E text w'))"
  by (simp add: analyze_document_with_ai_def Let_def split: sum.splits prod.splits)

lemma analyze_log_parsed:
  "generate_content E (prompt_template @ take 2000 text) = Inr r \<Longrightarrow>
   parse_response r = Inr cs \<Longrightarrow>
   audit_log (snd (analyze_document_with_ai E text w)) = audit_log w"
  by (simp add: analyze_document_with_ai_def Let_def split: sum.splits prod.splits)

subsection \<open>Splitting and the parse of a response\<close>

lemma str_split_no_sep: "sep \<notin> set s \<Longrightarrow> str_split sep s = [s]"
  by (induction s) auto

lemma str_split_sep:
  "sep \<in> set s \<Longrightarrow>
   str_split sep s =
     takeWhile (\<lambda>c. c \<noteq> sep) s # str_split sep (tl (dropWhile (\<lambda>c. c \<noteq> sep) s))"
  by (induction s) (auto split: list.splits)

lemma str_split_not_Nil: "str_split sep s \<noteq> []"
  by (induction s) (auto split: list.splits)

lemma str_split_hd: "hd (str_split sep s) = takeWhile (\<lambda>c. c \<noteq> sep) s"
  using str_split_not_Nil[of sep] by (induction s) (auto split: list.splits)

lemma str_split_length_lt_2: "length (str_split sep s) < 2 \<longleftrightarrow> sep \<notin> set s"
proof
  assume l: "length (str_split sep s) < 2"
  show "sep \<notin> set s"
  proof
    assume "sep \<in> set s"
    then have "length (str_split sep s) = Suc (length (str_split sep (tl (dropWhile (\<lambda>c. c \<noteq> sep) s))))"
      by (simp add: str_split_sep)
    moreover have "length (str_split sep (tl (dropWhile (\<lambda>c. c \<noteq> sep) s))) \<noteq> 0"
      using str_split_not_Nil by simp
    ultimately show False using l by simp
  qed
next
  assume "sep \<notin> set s" then show "length (str_split sep s) < 2" by (simp add: str_split_no_sep)
qed

lemma bar_not_space: "\<not> isspace (CHR ''|'')"
  by (simp add: isspace_def)

lemma set_dropWhile_keep: "\<not> P x \<Longrightarrow> x \<in> set xs \<Longrightarrow> x \<in> set (dropWhile P xs)"
  by (induction xs) auto

lemma bar_in_strip: "CHR ''|'' \<in> set (strip s) \<longleftrightarrow> CHR ''|'' \<in> set s"
proof
  assume "CHR ''|'' \<in> set (strip s)"
  then show "CHR ''|'' \<in> set s"
    unfolding strip_def rstrip_def lstrip_def
    by (metis set_dropWhileD set_rev)
next
  assume a: "CHR ''|'' \<in> set s"
  have "CHR ''|'' \<in> set (dropWhile isspace s)"
    using a bar_not_space by (rule set_dropWhile_keep[rotated])
  then have "CHR ''|'' \<in> set (rev (dropWhile isspace s))" by simp
  then have "CHR ''|'' \<in> set (dropWhile isspace (rev (dropWhile isspace s)))"
    using bar_not_space by (rule set_dropWhile_keep[rotated])
  then show "CHR ''|'' \<in> set (strip s)"
    by (simp add: strip_def rstrip_def lstrip_def)
qed

lemma parse_response_no_bar:
  "CHR ''|'' \<notin> set (strip r) \<Longrightarrow>
   parse_response r = Inl (PyExc ''IndexError'' ''list index out of range'')"
  by (simp add: parse_response_def Let_def str_split_no_sep index_def)

lemma parse_response_bar:
  assumes "CHR ''|'' \<in> set (strip r)"
  shows "parse_response r =
           Inr (strip (first_field (strip r)),
                replace (CHR '' '') (CHR ''_'') (strip (first_field (after_first_bar (strip r)))))"
proof -
  obtain rest where "str_split (CHR ''|'') (after_first_bar (strip r)) =
      first_field (after_first_bar (strip r)) # rest"
    using str_split_hd[of "CHR ''|''" "after_first_bar (strip r)"]
      str_split_not_Nil[of "CHR ''|''" "after_first_bar (strip r)"]
    by (cases "str_split (CHR ''|'') (after_first_bar (strip r))") (auto simp: first_field_def)
  then have "str_split (CHR ''|'') (strip r) =
      first_field (strip r) # first_field (after_first_bar (strip r)) # rest"
    using str_split_sep[OF assms] by (simp add: first_field_def after_first_bar_def)
  then show ?thesis
    by (simp add: parse_response_def Let_def index_def)
qed

lemma length_replace: "length (replace old new s) = length s"
  by (simp add: replace_def)

lemma replace_removes: "old \<noteq> new \<Longrightarrow> old \<notin> set (replace old new s)"
  by (auto simp: replace_def)

subsection \<open>The workflow, branch by branch\<close>

text \<open>
  When extraction gives no text the workflow returns at once. Otherwise its result, its
  file system, its trace and its log are those of the mkdir and of the move on the path
  computed from the classification.
\<close>

lemma process_skipped:
  assumes "fst (extract_text_from_pdf E p w) = None \<or> fst (extract_text_from_pdf E p w) = Some []"
  shows "fst (process_new_file E p w) = Inr Skipped"
    and "fs (snd (process_new_file E p w)) = fs w"
    and "calls (snd (process_new_file E p w)) = calls w @ [FitzOpen p]"
proof -
  define w1 where "w1 = logging_info (detected_message (basename p)) w"
  obtain x w2 where x: "extract_text_from_pdf E p w1 = (x, w2)" by (cases "extract_text_from_pdf E p w1")
  have "fst (extract_text_from_pdf E p w1) = fst (extract_text_from_pdf E p w)"
    by (rule extract_fst_cong) (simp add: w1_def)
  with x assms have x': "x = None \<or> x = Some []" by simp
  have "fs w2 = fs w1" using extract_fs[of E p w1] by (simp add: x)
  then have f: "fs w2 = fs w" by (simp add: w1_def)
  have "calls w2 = calls w1 @ [FitzOpen p]" using extract_calls[of E p w1] by (simp add: x)
  then have c: "calls w2 = calls w @ [FitzOpen p]" by (simp add: w1_def)
  have r: "process_new_file E p w = (Inr Skipped, w2)"
    using x x' unfolding process_new_file_def Let_def w1_def[symmetric] by auto
  show "fst (process_new_file E p w) = Inr Skipped" using r by simp
  show "fs (snd (process_new_file E p w)) = fs w" using r f by simp
  show "calls (snd (process_new_file E p w)) = calls w @ [FitzOpen p]" using r c by simp
qed

lemma process_routing:
  assumes ex: "fst (extract_text_from_pdf E p w) = Some text" and ne: "text \<noteq> []"
      and cl: "fst (analyze_document_with_ai E text w) = Inr (category, summary)"
  defines "mk \<equiv> path_mkdir E (target_folder_of category) (fs w)"
      and "mv \<equiv> shutil_move E p (new_file_path_of E category summary)
                   (snd (path_mkdir E (target_folder_of category) (fs w)))"
  shows "fst (process_new_file E p w) =
           (case fst mk of
              Inl e \<Rightarrow> Inl e
            | Inr u \<Rightarrow>
                (case fst mv of
                   Inl e \<Rightarrow> Inr Failed
                 | Inr r \<Rightarrow> (case print_fault E of Some e \<Rightarrow> Inr Failed | None \<Rightarrow> Inr Routed)))"
    and "fs (snd (process_new_file E p w)) =
           (case fst mk of Inl e \<Rightarrow> snd mk | Inr u \<Rightarrow> snd mv)"
    and "calls (snd (process_new_file E p w)) =
           calls w @ [FitzOpen p, GenerateContent (prompt_template @ take 2000 text),
                      Mkdir (target_folder_of category)] @
           (case fst mk of
              Inl e \<Rightarrow> []
            | Inr u \<Rightarrow>
                Move p (new_file_path_of E category summary) #
                (case fst mv of
                   Inl e \<Rightarrow> []
                 | Inr r \<Rightarrow> [Print (''Processed: '' @ new_filename_of (strftime_Ymd E) category summary)]))"
proof -
  define w1 where "w1 = logging_info (detected_message (basename p)) w"
  have ex': "fst (extract_text_from_pdf E p w1) = Some text"
    using ex by (simp add: w1_def)
  have cl': "fst (analyze_document_with_ai E text (snd (extract_text_from_pdf E p w1))) = Inr (category, summary)"
    using cl analyze_fst_indep by metis
  have f1: "fs w1 = fs w" and c1: "calls w1 = calls w" by (simp_all add: w1_def)
  show "fst (process_new_file E p w) =
           (case fst mk of
              Inl e \<Rightarrow> Inl e
            | Inr u \<Rightarrow>
                (case fst mv of
                   Inl e \<Rightarrow> Inr Failed
                 | Inr r \<Rightarrow> (case print_fault E of Some e \<Rightarrow> Inr Failed | None \<Rightarrow> Inr Routed)))"
    unfolding process_new_file_def Let_def w1_def[symmetric] mk_def mv_def
    by (simp add: case_prod_beta ex' cl' ne f1 c1 target_folder_of_def new_file_path_of_def
          split: sum.splits option.splits)
  show "fs (snd (process_new_file E p w)) =
           (case fst mk of Inl e \<Rightarrow> snd mk | Inr u \<Rightarrow> snd mv)"
    unfolding process_new_file_def Let_def w1_def[symmetric] mk_def mv_def
    by (simp add: case_prod_beta ex' cl' ne f1 c1 target_folder_of_def new_file_path_of_def
          split: sum.splits option.splits)
  show "calls (snd (process_new_file E p w)) =
           calls w @ [FitzOpen p, GenerateContent (prompt_template @ take 2000 text),
                      Mkdir (target_folder_of category)] @
           (case fst mk of
              Inl e \<Rightarrow> []
            | Inr u \<Rightarrow>
                Move p (new_file_path_of E category summary) #
                (case fst mv of
                   Inl e \<Rightarrow> []
                 | Inr r \<Rightarrow> [Print (''Processed: '' @ new_filename_of (strftime_Ymd E) category summary)]))"
    unfolding process_new_file_def Let_def w1_def[symmetric] mk_def mv_def
    by (simp add: case_prod_beta ex' cl' ne f1 c1 target_folder_of_def new_file_path_of_def
          split: sum.splits option.splits)
qed

lemma process_routing_log_exact:
  assumes ex: "fst (extract_text_from_pdf E p w) = Some text" and ne: "text \<noteq> []"
      and cl: "fst (analyze_document_with_ai E text w) = Inr (category, summary)"
  defines "mk \<equiv> path_mkdir E (target_folder_of category) (fs w)"
      and "mv \<equiv> shutil_move E p (new_file_path_of E category summary)
                   (snd (path_mkdir E (target_folder_of category) (fs w)))"
  shows "audit_log (snd (process_new_file E p w)) =
           audit_log (snd (analyze_document_with_ai E text
                             (logging_info (detected_message (basename p)) w))) @
           (case fst mk of
              Inl e \<Rightarrow> []
            | Inr u \<Rightarrow>
                (case fst mv of
                   Inl e \<Rightarrow> [(ERROR, failure_message (basename p) e)]
                 | Inr r \<Rightarrow>
                     (INFO, success_message (basename p) (new_file_path_of E category summary)) #
                     (case print_fault E of
                        Some e \<Rightarrow> [(ERROR, failure_message (basename p) e)]
                      | None \<Rightarrow> [])))"
proof -
  define w1 where "w1 = logging_info (detected_message (basename p)) w"
  have ex': "fst (extract_text_from_pdf E p w1) = Some text"
    using ex by (simp add: w1_def)
  have cl': "fst (analyze_document_with_ai E text (snd (extract_text_from_pdf E p w1))) = Inr (category, summary)"
    using cl analyze_fst_indep by metis
  have f1: "fs w1 = fs w" by (simp add: w1_def)
  have lg: "audit_log (snd (analyze_document_with_ai E text (snd (extract_text_from_pdf E p w1)))) =
            audit_log (snd (analyze_document_with_ai E text w1))"
    by (rule analyze_log_cong) (rule extract_log_Some[OF ex'])
  have "audit_log (snd (process_new_file E p w)) =
          audit_log (snd (analyze_document_with_ai E text (snd (extract_text_from_pdf E p w1)))) @
           (case fst mk of
              Inl e \<Rightarrow> []
            | Inr u \<Rightarrow>
                (case fst mv of
                   Inl e \<Rightarrow> [(ERROR, failure_message (basename p) e)]
                 | Inr r \<Rightarrow>
                     (INFO, success_message (basename p) (new_file_path_of E category summary)) #
                     (case print_fault E of
                        Some e \<Rightarrow> [(ERROR, failure_message (basename p) e)]
                      | None \<Rightarrow> [])))"
    unfolding process_new_file_def Let_def w1_def[symmetric] mk_def mv_def
    by (simp add: case_prod_beta ex' cl' ne f1 target_folder_of_def new_file_path_of_def
          split: sum.splits option.splits)
  then show ?thesis unfolding w1_def using lg[unfolded w1_def] by simp
qed

lemma process_routing_log:
  assumes ex: "fst (extract_text_from_pdf E p w) = Some text" and ne: "text \<noteq> []"
      and cl: "fst (analyze_document_with_ai E text w) = Inr (category, summary)"
  defines "mk \<equiv> path_mkdir E (target_folder_of category) (fs w)"
      and "mv \<equiv> shutil_move E p (new_file_path_of E category summary)
                   (snd (path_mkdir E (target_folder_of category) (fs w)))"
  shows "\<exists>pre. audit_log (snd (process_new_file E p w)) =
           pre @
           (case fst mk of
              Inl e \<Rightarrow> []
            | Inr u \<Rightarrow>
                (case fst mv of
                   Inl e \<Rightarrow> [(ERROR, failure_message (basename p) e)]
                 | Inr r \<Rightarrow>
                     (INFO, success_message (basename p) (new_file_path_of E category summary)) #
                     (case print_fault E of
                        Some e \<Rightarrow> [(ERROR, failure_message (basename p) e)]
                      | None \<Rightarrow> [])))"
proof -
  define w1 where "w1 = logging_info (detected_message (basename p)) w"
  have ex': "fst (extract_text_from_pdf E p w1) = Some text"
    using ex by (simp add: w1_def)
  have cl': "fst (analyze_document_with_ai E text (snd (extract_text_from_pdf E p w1))) = Inr (category, summary)"
    using cl analyze_fst_indep by metis
  have f1: "fs w1 = fs w" by (simp add: w1_def)
  have "audit_log (snd (process_new_file E p w)) =
          audit_log (snd (analyze_document_with_ai E text (snd (extract_text_from_pdf E p w1)))) @
           (case fst mk of
              Inl e \<Rightarrow> []
            | Inr u \<Rightarrow>
                (case fst mv of
                   Inl e \<Rightarrow> [(ERROR, failure_message (basename p) e)]
                 | Inr r \<Rightarrow>
                     (INFO, success_message (basename p) (new_file_path_of E category summary)) #
                     (case print_fault E of
                        Some e \<Rightarrow> [(ERROR, failure_message (basename p) e)]
                      | None \<Rightarrow> [])))"
    unfolding process_new_file_def Let_def w1_def[symmetric] mk_def mv_def
    by (simp add: case_prod_beta ex' cl' ne f1 target_folder_of_def new_file_path_of_def
          split: sum.splits option.splits)
  then show ?thesis by blast
qed

lemma process_routed_not_empty:
  assumes "fst (extract_text_from_pdf E p w) = Some text"
      and "fst (process_new_file E p w) = Inr Routed"
  shows "text \<noteq> []"
proof
  assume "text = []"
  then have "fst (process_new_file E p w) = Inr Skipped"
    using assms(1) process_skipped(1)[of E p w] by simp
  then show False using assms(2) by simp
qed

lemma process_routed_steps:
  assumes ex: "fst (extract_text_from_pdf E p w) = Some text"
      and cl: "fst (analyze_document_with_ai E text w) = Inr (category, summary)"
      and routed: "fst (process_new_file E p w) = Inr Routed"
  shows "\<exists>u. fst (path_mkdir E (target_folder_of category) (fs w)) = Inr u"
    and "\<exists>r. fst (shutil_move E p (new_file_path_of E category summary)
                 (snd (path_mkdir E (target_folder_of category) (fs w)))) = Inr r"
    and "print_fault E = None"
proof -
  have ne: "text \<noteq> []" using ex routed by (rule process_routed_not_empty)
  note r = process_routing(1)[OF ex ne cl]
  show "\<exists>u. fst (path_mkdir E (target_folder_of category) (fs w)) = Inr u"
    using r routed by (auto split: sum.splits)
  show "\<exists>r. fst (shutil_move E p (new_file_path_of E category summary)
                 (snd (path_mkdir E (target_folder_of category) (fs w)))) = Inr r"
    using r routed by (auto split: sum.splits)
  show "print_fault E = None"
    using r routed by (auto split: sum.splits option.splits)
qed

text \<open>
  Whatever the mkdir raises leaves \<^verbatim>\<open>process_new_file\<close>: no handler encloses it.
\<close>

lemma mkdir_failure_propagates:
  assumes "fst (extract_text_from_pdf E p w) = Some text" and "text \<noteq> []"
      and "fst (analyze_document_with_ai E text w) = Inr (category, summary)"
      and "fst (path_mkdir E (target_folder_of category) (fs w)) = Inl e"
  shows "fst (process_new_file E p w) = Inl e"
  using process_routing(1)[OF assms(1-3)] assms(4) by simp

subsection \<open>The file system calls\<close>

lemma file_not_isdir: "f k = Some (File c) \<Longrightarrow> \<not> key_isdir f k"
  by (simp add: key_isdir_def)

lemma mkdir_ok_isdir:
  "fst (path_mkdir E t f) = Inr u \<Longrightarrow> key_isdir (snd (path_mkdir E t f)) (resolve t)"
  by (auto simp: path_mkdir_def Let_def key_isdir_def split: if_splits option.splits)

lemma mkdir_keeps:
  "f k \<noteq> None \<Longrightarrow> snd (path_mkdir E t f) k = f k"
  by (auto simp: path_mkdir_def Let_def split: if_splits option.splits)

lemma mkdir_frame:
  "k \<noteq> resolve t \<Longrightarrow> snd (path_mkdir E t f) k = f k"
  by (auto simp: path_mkdir_def Let_def split: if_splits option.splits)

lemma mkdir_fail_unchanged:
  "fst (path_mkdir E t f) = Inl e \<Longrightarrow> snd (path_mkdir E t f) = f"
  by (auto simp: path_mkdir_def Let_def split: if_splits option.splits)

lemma rename_file:
  "f (resolve s) = Some (File c) \<Longrightarrow> \<not> key_isdir f (resolve d) \<Longrightarrow>
   os_rename E s d f =
     (case parent_error f (resolve d) of
        Some e \<Rightarrow> Inl e
      | None \<Rightarrow>
          (case rename_fault E of
             Some e \<Rightarrow> Inl e
           | None \<Rightarrow> Inr ((f(resolve s := None))(resolve d \<mapsto> File c))))"
  by (simp add: os_rename_def Let_def)

lemma copy2_file:
  "f (resolve s) = Some (File c) \<Longrightarrow> \<not> key_isdir f (resolve d) \<Longrightarrow>
   shutil_copy2 E s d f =
     (if resolve s = resolve d then (Inl (PyExc ''SameFileError'' ''are the same file''), f)
      else (case parent_error f (resolve d) of
              Some e \<Rightarrow> (Inl e, f)
            | None \<Rightarrow>
                (case copy_fault E of
                   None \<Rightarrow> (Inr (), f(resolve d \<mapsto> File c))
                 | Some (e, None) \<Rightarrow> (Inl e, f)
                 | Some (e, Some part) \<Rightarrow> (Inl e, f(resolve d \<mapsto> File part)))))"
  by (simp add: shutil_copy2_def Let_def isdir_def)

lemma unlink_file:
  "f (resolve s) = Some (File c) \<Longrightarrow>
   os_unlink E s f =
     (case unlink_fault E of Some e \<Rightarrow> Inl e | None \<Rightarrow> Inr (f(resolve s := None)))"
  by (simp add: os_unlink_def)

text \<open>
  The effect of a move whose source is a regular file: the file is at the path written
  to and gone from the source; or the move raised and nothing changed; or it raised after
  the copy had written to the destination, the source still in place.
\<close>

lemma move_effect:
  assumes src: "f (resolve s) = Some (File c)"
  shows "(fst (shutil_move E s d f) = Inr (real_dst_of f s d) \<and>
          snd (shutil_move E s d f) =
            (f(resolve s := None))(resolve (real_dst_of f s d) \<mapsto> File c) \<and>
          \<not> key_isdir f (resolve (real_dst_of f s d)))
       \<or> (\<exists>e. fst (shutil_move E s d f) = Inl e \<and> snd (shutil_move E s d f) = f)
       \<or> (\<exists>e x. fst (shutil_move E s d f) = Inl e \<and>
                 snd (shutil_move E s d f) = f(resolve (real_dst_of f s d) \<mapsto> File x) \<and>
                 resolve (real_dst_of f s d) \<noteq> resolve s \<and>
                 \<not> key_isdir f (resolve (real_dst_of f s d)))"
proof -
  define rd where "rd = real_dst_of f s d"
  have rd_if: "(if isdir f d then os_path_join d (basename s) else d) = rd"
    by (simp add: rd_def real_dst_of_def)
  have unf: "shutil_move E s d f =
      (if isdir f d \<and> path_exists f rd
       then (Inl (PyExc ''Error''
               (''Destination path '' @ [CHR 0x27] @ rd @ [CHR 0x27] @ '' already exists'')), f)
       else (case os_rename E s rd f of
         Inr f' \<Rightarrow> (Inr rd, f')
       | Inl e0 \<Rightarrow>
           (case shutil_copy2 E s rd f of
              (Inl e, f') \<Rightarrow> (Inl e, f')
            | (Inr u, f') \<Rightarrow>
                (case os_unlink E s f' of
                   Inl e \<Rightarrow> (Inl e, f')
                 | Inr f'' \<Rightarrow> (Inr rd, f'')))))"
    unfolding shutil_move_def rd_if using src by (simp add: Let_def)
  have goal: "(fst (shutil_move E s d f) = Inr rd \<and>
          snd (shutil_move E s d f) = (f(resolve s := None))(resolve rd \<mapsto> File c) \<and>
          \<not> key_isdir f (resolve rd))
       \<or> (\<exists>e. fst (shutil_move E s d f) = Inl e \<and> snd (shutil_move E s d f) = f)
       \<or> (\<exists>e x. fst (shutil_move E s d f) = Inl e \<and>
                 snd (shutil_move E s d f) = f(resolve rd \<mapsto> File x) \<and>
                 resolve rd \<noteq> resolve s \<and> \<not> key_isdir f (resolve rd))"
  proof (cases "isdir f d \<and> path_exists f rd")
    case True
    then show ?thesis by (simp add: unf)
  next
    case False
    then have nd: "\<not> key_isdir f (resolve rd)"
      using rd_if by (auto simp: path_exists_def isdir_def split: if_splits)
    have mv: "shutil_move E s d f =
        (case os_rename E s rd f of
           Inr f' \<Rightarrow> (Inr rd, f')
         | Inl e0 \<Rightarrow>
             (case shutil_copy2 E s rd f of
                (Inl e, f') \<Rightarrow> (Inl e, f')
              | (Inr u, f') \<Rightarrow>
                  (case os_unlink E s f' of
                     Inl e \<Rightarrow> (Inl e, f')
                   | Inr f'' \<Rightarrow> (Inr rd, f''))))"
      by (simp only: unf False if_False)
    show ?thesis
    proof (cases "os_rename E s rd f")
      case (Inr f')
      then show ?thesis
        using nd by (simp add: mv rename_file[OF src nd] split: option.splits)
    next
      case (Inl e0)
      show ?thesis
      proof (cases "resolve s = resolve rd")
        case True
        then show ?thesis by (simp add: mv Inl copy2_file[OF src nd])
      next
        case ne: False
        have upd: "(f(resolve rd \<mapsto> File c)) (resolve s) = Some (File c)"
          using ne src by simp
        have tw: "(f(resolve rd \<mapsto> File c))(resolve s := None) = (f(resolve s := None))(resolve rd \<mapsto> File c)"
          using ne by (simp add: fun_upd_twist)
        show ?thesis
          using ne nd
          by (cases "parent_error f (resolve rd)"; cases "copy_fault E"; cases "unlink_fault E")
             (auto simp: mv Inl copy2_file[OF src nd] unlink_file[of "f(resolve rd \<mapsto> File c)" s c E, OF upd] tw split: option.splits)
      qed
    qed
  qed
  then show ?thesis by (simp add: rd_def)
qed

lemma move_fail_src:
  assumes "f (resolve s) = Some (File c)" and "fst (shutil_move E s d f) = Inl e"
  shows "snd (shutil_move E s d f) (resolve s) = Some (File c)"
  using move_effect[of f s c E d] assms by auto

lemma move_fail_frame:
  assumes "f (resolve s) = Some (File c)" and "fst (shutil_move E s d f) = Inl e"
      and "k \<noteq> resolve (real_dst_of f s d)"
  shows "snd (shutil_move E s d f) k = f k"
  using move_effect[of f s c E d] assms by auto

lemma move_keeps_isdir:
  assumes "f (resolve s) = Some (File c)" and "key_isdir f k"
  shows "key_isdir (snd (shutil_move E s d f)) k"
proof -
  have ks: "k \<noteq> resolve s" using assms file_not_isdir by blast
  from move_effect[of f s c E d] assms(1)
  consider (ok) "snd (shutil_move E s d f) = (f(resolve s := None))(resolve (real_dst_of f s d) \<mapsto> File c)"
                "\<not> key_isdir f (resolve (real_dst_of f s d))"
    | (same) "snd (shutil_move E s d f) = f"
    | (part) x where "snd (shutil_move E s d f) = f(resolve (real_dst_of f s d) \<mapsto> File x)"
                "\<not> key_isdir f (resolve (real_dst_of f s d))"
    by blast
  then show ?thesis
  proof cases
    case ok
    then have "k \<noteq> resolve (real_dst_of f s d)" using assms(2) by blast
    then have "snd (shutil_move E s d f) k = f k" using ok ks by simp
    then show ?thesis using assms(2) by (simp add: key_isdir_def)
  next
    case same
    then show ?thesis using assms(2) by simp
  next
    case part
    then have "k \<noteq> resolve (real_dst_of f s d)" using assms(2) by blast
    then have "snd (shutil_move E s d f) k = f k" using part by simp
    then show ?thesis using assms(2) by (simp add: key_isdir_def)
  qed
qed

lemma move_ok:
  assumes "f (resolve s) = Some (File c)" and "fst (shutil_move E s d f) = Inr r"
  shows "r = real_dst_of f s d"
    and "snd (shutil_move E s d f) = (f(resolve s := None))(resolve (real_dst_of f s d) \<mapsto> File c)"
    and "\<not> key_isdir f (resolve (real_dst_of f s d))"
  using move_effect[of f s c E d] assms by auto

lemma real_dst_cases: "real_dst_of f s d = d \<or> real_dst_of f s d = os_path_join d (basename s)"
  by (simp add: real_dst_of_def)

subsection \<open>The destination as a plain string\<close>

text \<open>
  For a category that is not empty and neither starts nor ends with a slash, joining is
  concatenation with a slash.
\<close>

lemma new_file_path_plain:
  assumes "category \<noteq> []" and "hd category \<noteq> CHR ''/''" and "last category \<noteq> CHR ''/''"
      and "strftime_Ymd E = [] \<or> hd (strftime_Ymd E) \<noteq> CHR ''/''"
  shows "new_file_path_of E category summary =
           PROCESSED_DIR @ ''/'' @ category @ ''/'' @
           strftime_Ymd E @ ''_'' @ category @ ''_'' @ summary @ ''.pdf''"
proof -
  have t: "target_folder_of category = PROCESSED_DIR @ ''/'' @ category"
    using assms(1,2) by (simp add: target_folder_of_def os_path_join_def PROCESSED_DIR_def)
  have l: "last (PROCESSED_DIR @ ''/'' @ category) = last category"
    using assms(1) by simp
  have h: "hd (new_filename_of (strftime_Ymd E) category summary) \<noteq> CHR ''/''"
    using assms(4) by (cases "strftime_Ymd E") (auto simp: new_filename_of_def)
  have n: "new_filename_of (strftime_Ymd E) category summary \<noteq> []"
    by (simp add: new_filename_of_def)
  show ?thesis
    unfolding new_file_path_of_def t
    using l h n assms(3) by (simp add: os_path_join_def new_filename_of_def)
qed

section \<open>The sample scenario, evaluated\<close>

lemmas string_eval = strip_def lstrip_def rstrip_def isspace_def replace_def index_def
  os_path_join_def basename_def resolve_def first_field_def after_first_bar_def

lemmas path_eval = target_folder_of_def new_file_path_of_def new_filename_of_def
  PROCESSED_DIR_def os_path_join_def basename_def resolve_def

lemma scenario_env_simps [simp]:
  "fitz_open (scenario_env a) = pdf_reader"
  "generate_content (scenario_env a) = (\<lambda>prompt. a)"
  "strftime_Ymd (scenario_env a) = ''20240115''"
  "mkdir_fault (scenario_env a) = None"
  "rename_fault (scenario_env a) = None"
  "copy_fault (scenario_env a) = None"
  "unlink_fault (scenario_env a) = None"
  "print_fault (scenario_env a) = None"
  by (simp_all add: scenario_env_def)

lemma faulty_env_simps [simp]:
  "fitz_open (faulty_env rn cp ul) = pdf_reader"
  "generate_content (faulty_env rn cp ul) = (\<lambda>prompt. Inr ''Invoice | Acme Q1 Invoice'')"
  "strftime_Ymd (faulty_env rn cp ul) = ''20240115''"
  "mkdir_fault (faulty_env rn cp ul) = None"
  "rename_fault (faulty_env rn cp ul) = rn"
  "copy_fault (faulty_env rn cp ul) = cp"
  "unlink_fault (faulty_env rn cp ul) = ul"
  "print_fault (faulty_env rn cp ul) = None"
  by (simp_all add: faulty_env_def)

lemma scenario_world_simps [simp]:
  "fs scenario_world = scenario_fs" "audit_log scenario_world = []" "calls scenario_world = []"
  by (simp_all add: scenario_world_def)

lemma archived_world_simps [simp]:
  "fs archived_world = archived_fs" "audit_log archived_world = []" "calls archived_world = []"
  by (simp_all add: archived_world_def)

lemma scenario_paths:
  "resolve ''./dropzone/invoice_q1.pdf'' = [''dropzone'', ''invoice_q1.pdf'']"
  "resolve ''./dropzone/invoice_q1_copy.pdf'' = [''dropzone'', ''invoice_q1_copy.pdf'']"
  "basename ''./dropzone/invoice_q1.pdf'' = ''invoice_q1.pdf''"
  "basename ''./dropzone/invoice_q1_copy.pdf'' = ''invoice_q1_copy.pdf''"
  "target_folder_of ''Invoice'' = ''./organized_docs/Invoice''"
  "resolve ''./organized_docs/Invoice'' = [''organized_docs'', ''Invoice'']"
  "resolve ''./organized_docs/Invoice/20240115_Invoice_Acme_Q1_Invoice.pdf'' =
     [''organized_docs'', ''Invoice'', ''20240115_Invoice_Acme_Q1_Invoice.pdf'']"
  by (simp_all add: path_eval)

lemma scenario_dest:
  "strftime_Ymd E = ''20240115'' \<Longrightarrow>
   new_file_path_of E ''Invoice'' ''Acme_Q1_Invoice'' =
     ''./organized_docs/Invoice/20240115_Invoice_Acme_Q1_Invoice.pdf''"
  by (simp add: path_eval)

lemma text_A_not_empty: "''Invoice #123 from Acme'' \<noteq> []" by simp

lemma text_B_not_empty: "''Invoice #123 from Acme, second copy'' \<noteq> []" by simp

lemma scenario_extract:
  "fitz_open E = pdf_reader \<Longrightarrow> fs w = scenario_fs \<Longrightarrow>
   fst (extract_text_from_pdf E ''./dropzone/invoice_q1.pdf'' w) = Some ''Invoice #123 from Acme''"
  by (simp add: extract_text_from_pdf_def Let_def pdf_reader_def scenario_fs_def scenario_paths)

lemma archived_extract:
  "fitz_open E = pdf_reader \<Longrightarrow> fs w = archived_fs \<Longrightarrow>
   fst (extract_text_from_pdf E ''./dropzone/invoice_q1_copy.pdf'' w) =
     Some ''Invoice #123 from Acme, second copy''"
  by (simp add: extract_text_from_pdf_def Let_def pdf_reader_def scenario_fs_def archived_fs_def
        scenario_paths)

lemma scenario_classify:
  "generate_content E = (\<lambda>prompt. Inr ''Invoice | Acme Q1 Invoice'') \<Longrightarrow>
   fst (analyze_document_with_ai E t w) = Inr (''Invoice'', ''Acme_Q1_Invoice'')"
  by (simp add: analyze_fst parse_response_def Let_def string_eval)

lemma scenario_mkdir:
  "mkdir_fault E = None \<Longrightarrow>
   path_mkdir E ''./organized_docs/Invoice'' scenario_fs =
     (Inr (), scenario_fs([''organized_docs'', ''Invoice''] \<mapsto> Dir))"
  by (simp add: path_mkdir_def Let_def key_isdir_def parent_error_def scenario_paths scenario_fs_def)

lemma archived_mkdir:
  "path_mkdir E ''./organized_docs/Invoice'' archived_fs = (Inr (), archived_fs)"
  by (simp add: path_mkdir_def Let_def key_isdir_def scenario_paths archived_fs_def)

lemmas move_eval = shutil_move_def os_rename_def shutil_copy2_def os_unlink_def isdir_def
  path_exists_def key_isdir_def parent_error_def Let_def scenario_paths scenario_fs_def
  archived_fs_def

lemma scenario_move:
  "rename_fault E = None \<Longrightarrow>
   shutil_move E ''./dropzone/invoice_q1.pdf''
     ''./organized_docs/Invoice/20240115_Invoice_Acme_Q1_Invoice.pdf''
     (scenario_fs([''organized_docs'', ''Invoice''] \<mapsto> Dir)) =
   (Inr ''./organized_docs/Invoice/20240115_Invoice_Acme_Q1_Invoice.pdf'', archived_fs)"
  by (simp add: move_eval)

lemma archived_move:
  "rename_fault E = None \<Longrightarrow>
   shutil_move E ''./dropzone/invoice_q1_copy.pdf''
     ''./organized_docs/Invoice/20240115_Invoice_Acme_Q1_Invoice.pdf'' archived_fs =
   (Inr ''./organized_docs/Invoice/20240115_Invoice_Acme_Q1_Invoice.pdf'',
    archived_fs([''dropzone'', ''invoice_q1_copy.pdf''] := None,
                [''organized_docs'', ''Invoice'', ''20240115_Invoice_Acme_Q1_Invoice.pdf''] \<mapsto>
                  File ''Invoice #123 from Acme, second copy''))"
  by (simp add: move_eval)

lemma scenario_move_no_space:
  "shutil_move
     (faulty_env (Some (PyExc ''OSError'' ''Invalid cross-device link''))
        (Some (PyExc ''OSError'' ''No space left on device'', None)) None)
     ''./dropzone/invoice_q1.pdf''
     ''./organized_docs/Invoice/20240115_Invoice_Acme_Q1_Invoice.pdf''
     (scenario_fs([''organized_docs'', ''Invoice''] \<mapsto> Dir)) =
   (Inl (PyExc ''OSError'' ''No space left on device''),
    scenario_fs([''organized_docs'', ''Invoice''] \<mapsto> Dir))"
  by (simp add: move_eval)

lemma scenario_move_unlink_denied:
  "shutil_move
     (faulty_env (Some (PyExc ''PermissionError'' ''Permission denied'')) None
        (Some (PyExc ''PermissionError'' ''Permission denied'')))
     ''./dropzone/invoice_q1.pdf''
     ''./organized_docs/Invoice/20240115_Invoice_Acme_Q1_Invoice.pdf''
     (scenario_fs([''organized_docs'', ''Invoice''] \<mapsto> Dir)) =
   (Inl (PyExc ''PermissionError'' ''Permission denied''),
    scenario_fs([''organized_docs'', ''Invoice''] \<mapsto> Dir,
                [''organized_docs'', ''Invoice'', ''20240115_Invoice_Acme_Q1_Invoice.pdf''] \<mapsto>
                  File ''Invoice #123 from Acme''))"
  by (simp add: move_eval)

lemma archived_move_unlink_denied:
  "shutil_move
     (faulty_env (Some (PyExc ''PermissionError'' ''Permission denied'')) None
        (Some (PyExc ''PermissionError'' ''Permission denied'')))
     ''./dropzone/invoice_q1_copy.pdf''
     ''./organized_docs/Invoice/20240115_Invoice_Acme_Q1_Invoice.pdf'' archived_fs =
   (Inl (PyExc ''PermissionError'' ''Permission denied''),
    archived_fs([''organized_docs'', ''Invoice'', ''20240115_Invoice_Acme_Q1_Invoice.pdf''] \<mapsto>
                  File ''Invoice #123 from Acme, second copy''))"
  by (simp add: move_eval)

lemma scenario_run:
  assumes E: "fitz_open E = pdf_reader"
             "generate_content E = (\<lambda>prompt. Inr ''Invoice | Acme Q1 Invoice'')"
             "strftime_Ymd E = ''20240115''" "mkdir_fault E = None" "rename_fault E = None"
             "print_fault E = None"
      and w: "fs w = scenario_fs"
  shows "fst (process_new_file E ''./dropzone/invoice_q1.pdf'' w) = Inr Routed"
    and "fs (snd (process_new_file E ''./dropzone/invoice_q1.pdf'' w)) = archived_fs"
  using process_routing(1,2)[OF scenario_extract[OF E(1) w] text_A_not_empty scenario_classify[OF E(2)]]
  by (simp_all add: scenario_paths scenario_dest[OF E(3)] w scenario_mkdir[OF E(4)] scenario_move[OF E(5)] E(6))

lemma archived_run:
  assumes E: "fitz_open E = pdf_reader"
             "generate_content E = (\<lambda>prompt. Inr ''Invoice | Acme Q1 Invoice'')"
             "strftime_Ymd E = ''20240115''" "rename_fault E = None" "print_fault E = None"
      and w: "fs w = archived_fs"
  shows "fst (process_new_file E ''./dropzone/invoice_q1_copy.pdf'' w) = Inr Routed"
    and "fs (snd (process_new_file E ''./dropzone/invoice_q1_copy.pdf'' w)) =
           archived_fs([''dropzone'', ''invoice_q1_copy.pdf''] := None,
                [''organized_docs'', ''Invoice'', ''20240115_Invoice_Acme_Q1_Invoice.pdf''] \<mapsto>
                  File ''Invoice #123 from Acme, second copy'')"
  using process_routing(1,2)[OF archived_extract[OF E(1) w] text_B_not_empty scenario_classify[OF E(2)]]
  by (simp_all add: scenario_paths scenario_dest[OF E(3)] w archived_mkdir archived_move[OF E(4)] E(5))

lemma empty_category_classify:
  "fst (analyze_document_with_ai (scenario_env (Inr ''| Quarterly Report'')) t w) =
     Inr ([], ''Quarterly_Report'')"
  by (simp add: analyze_fst parse_response_def Let_def string_eval)

lemma slash_category_classify:
  "fst (analyze_document_with_ai (scenario_env (Inr ''Legal/NDA | Acme NDA'')) t w) =
     Inr (''Legal/NDA'', ''Acme_NDA'')"
  by (simp add: analyze_fst parse_response_def Let_def string_eval)

lemma empty_category_paths:
  "target_folder_of [] = ''./organized_docs/''"
  "resolve ''./organized_docs/'' = [''organized_docs'']"
  "new_file_path_of (scenario_env a) [] ''Quarterly_Report'' =
     ''./organized_docs/20240115__Quarterly_Report.pdf''"
  "resolve ''./organized_docs/20240115__Quarterly_Report.pdf'' =
     [''organized_docs'', ''20240115__Quarterly_Report.pdf'']"
  "target_folder_of ''Legal/NDA'' = ''./organized_docs/Legal/NDA''"
  "resolve ''./organized_docs/Legal/NDA'' = [''organized_docs'', ''Legal'', ''NDA'']"
  by (simp_all add: path_eval)

lemma empty_category_mkdir:
  "path_mkdir E ''./organized_docs/'' scenario_fs = (Inr (), scenario_fs)"
  by (simp add: path_mkdir_def Let_def key_isdir_def empty_category_paths scenario_fs_def)

lemma slash_category_mkdir:
  "path_mkdir E ''./organized_docs/Legal/NDA'' scenario_fs =
     (Inl (PyExc ''FileNotFoundError'' ''No such file or directory''), scenario_fs)"
  by (simp add: path_mkdir_def Let_def key_isdir_def parent_error_def empty_category_paths
        scenario_fs_def)

lemma empty_category_move:
  "rename_fault E = None \<Longrightarrow>
   shutil_move E ''./dropzone/invoice_q1.pdf''
     ''./organized_docs/20240115__Quarterly_Report.pdf'' scenario_fs =
   (Inr ''./organized_docs/20240115__Quarterly_Report.pdf'',
    scenario_fs([''dropzone'', ''invoice_q1.pdf''] := None,
                [''organized_docs'', ''20240115__Quarterly_Report.pdf''] \<mapsto>
                  File ''Invoice #123 from Acme''))"
  by (simp add: move_eval empty_category_paths)

section \<open>The claims\<close>

subsection \<open>C1: two files with the same destination\<close>

text \<open>
  Claim C1, as the code has it. The router appends no disambiguator: the move goes to
  the computed path \<^verbatim>\<open>{date}_{category}_{summary}.pdf\<close> itself. When a routing ends
  Routed and that path already held a regular file, the path holds the newly routed
  file's contents afterwards and the source is gone: the earlier file has been replaced.
\<close>

theorem C1_existing_destination_replaced:
  assumes ex: "fst (extract_text_from_pdf E file_path w) = Some text"
      and cl: "fst (analyze_document_with_ai E text w) = Inr (category, summary)"
      and routed: "fst (process_new_file E file_path w) = Inr Routed"
      and src: "fs w (resolve file_path) = Some (File content)"
      and old: "fs w (resolve (new_file_path_of E category summary)) = Some (File existing)"
      and differ: "resolve file_path \<noteq> resolve (new_file_path_of E category summary)"
  shows "Move file_path (new_file_path_of E category summary)
           \<in> set (calls (snd (process_new_file E file_path w))) \<and>
         fs (snd (process_new_file E file_path w)) (resolve (new_file_path_of E category summary))
           = Some (File content) \<and>
         fs (snd (process_new_file E file_path w)) (resolve file_path) = None"
proof -
  define f4 where "f4 = snd (path_mkdir E (target_folder_of category) (fs w))"
  define dest where "dest = new_file_path_of E category summary"
  have ne: "text \<noteq> []" using ex routed by (rule process_routed_not_empty)
  obtain u where mk: "fst (path_mkdir E (target_folder_of category) (fs w)) = Inr u"
    using process_routed_steps(1)[OF ex cl routed] by blast
  obtain r where mv: "fst (shutil_move E file_path dest f4) = Inr r"
    using process_routed_steps(2)[OF ex cl routed] by (auto simp: dest_def f4_def)
  have s4: "f4 (resolve file_path) = Some (File content)"
    using src by (simp add: f4_def mkdir_keeps)
  have d4: "f4 (resolve dest) = Some (File existing)"
    using old by (simp add: f4_def dest_def mkdir_keeps)
  have "\<not> isdir f4 dest" using d4 by (simp add: isdir_def file_not_isdir)
  then have rd: "real_dst_of f4 file_path dest = dest" by (simp add: real_dst_of_def)
  have fs': "fs (snd (process_new_file E file_path w)) = snd (shutil_move E file_path dest f4)"
    using process_routing(2)[OF ex ne cl] mk by (simp add: f4_def dest_def)
  have "Move file_path dest \<in> set (calls (snd (process_new_file E file_path w)))"
    using process_routing(3)[OF ex ne cl] mk by (simp add: dest_def)
  moreover have "fs (snd (process_new_file E file_path w)) (resolve dest) = Some (File content)"
    using move_ok(2)[where f=f4 and s=file_path and c=content, OF s4 mv] rd by (simp add: fs')
  moreover have "fs (snd (process_new_file E file_path w)) (resolve file_path) = None"
    using move_ok(2)[where f=f4 and s=file_path and c=content, OF s4 mv] rd differ by (simp add: fs' dest_def)
  ultimately show ?thesis by (simp add: dest_def)
qed

text \<open>
  The copy of the invoice, routed into the archive that already holds the invoice.
\<close>

theorem C1_existing_destination_replaced_witness:
  "fst (process_new_file (scenario_env (Inr ''Invoice | Acme Q1 Invoice''))
          ''./dropzone/invoice_q1_copy.pdf'' archived_world) = Inr Routed \<and>
   fs archived_world [''organized_docs'', ''Invoice'', ''20240115_Invoice_Acme_Q1_Invoice.pdf''] =
     Some (File ''Invoice #123 from Acme'') \<and>
   Move ''./dropzone/invoice_q1_copy.pdf''
        ''./organized_docs/Invoice/20240115_Invoice_Acme_Q1_Invoice.pdf''
     \<in> set (calls (snd (process_new_file (scenario_env (Inr ''Invoice | Acme Q1 Invoice''))
          ''./dropzone/invoice_q1_copy.pdf'' archived_world))) \<and>
   fs (snd (process_new_file (scenario_env (Inr ''Invoice | Acme Q1 Invoice''))
          ''./dropzone/invoice_q1_copy.pdf'' archived_world))
      [''organized_docs'', ''Invoice'', ''20240115_Invoice_Acme_Q1_Invoice.pdf''] =
     Some (File ''Invoice #123 from Acme, second copy'') \<and>
   fs (snd (process_new_file (scenario_env (Inr ''Invoice | Acme Q1 Invoice''))
          ''./dropzone/invoice_q1_copy.pdf'' archived_world))
      [''dropzone'', ''invoice_q1_copy.pdf''] = None"
proof -
  define E where "E = scenario_env (Inr ''Invoice | Acme Q1 Invoice'')"
  have ex: "fst (extract_text_from_pdf E ''./dropzone/invoice_q1_copy.pdf'' archived_world) =
              Some ''Invoice #123 from Acme, second copy''"
    by (rule archived_extract) (simp_all add: E_def)
  have cl: "fst (analyze_document_with_ai E ''Invoice #123 from Acme, second copy'' archived_world) =
              Inr (''Invoice'', ''Acme_Q1_Invoice'')"
    by (rule scenario_classify) (simp add: E_def)
  have routed: "fst (process_new_file E ''./dropzone/invoice_q1_copy.pdf'' archived_world) = Inr Routed"
    by (rule archived_run) (simp_all add: E_def)
  have d: "new_file_path_of E ''Invoice'' ''Acme_Q1_Invoice'' =
             ''./organized_docs/Invoice/20240115_Invoice_Acme_Q1_Invoice.pdf''"
    by (rule scenario_dest) (simp add: E_def)
  have src: "fs archived_world (resolve ''./dropzone/invoice_q1_copy.pdf'') =
               Some (File ''Invoice #123 from Acme, second copy'')"
    by (simp add: scenario_paths archived_fs_def scenario_fs_def)
  have old: "fs archived_world (resolve (new_file_path_of E ''Invoice'' ''Acme_Q1_Invoice'')) =
               Some (File ''Invoice #123 from Acme'')"
    by (simp add: d scenario_paths archived_fs_def)
  have differ: "resolve ''./dropzone/invoice_q1_copy.pdf'' \<noteq>
                resolve (new_file_path_of E ''Invoice'' ''Acme_Q1_Invoice'')"
    by (simp add: d scenario_paths)
  from C1_existing_destination_replaced[OF ex cl routed src old differ] routed old
  show ?thesis
    unfolding E_def[symmetric] by (simp add: d scenario_paths)
qed

text \<open>
  Claim C1 as stated fails. Two files of the drop zone are routed on the same day with
  the same answer of the service. Both routings end Routed; the second replaces the first
  at the one destination path, no file with the suffix \<^verbatim>\<open>_1\<close> exists, and the
  contents of the first file are nowhere in the file system.
\<close>

theorem C1_same_day_duplicate_counterexample:
  "fst (process_new_file (scenario_env (Inr ''Invoice | Acme Q1 Invoice''))
          ''./dropzone/invoice_q1.pdf'' scenario_world) = Inr Routed \<and>
   fs (snd (process_new_file (scenario_env (Inr ''Invoice | Acme Q1 Invoice''))
          ''./dropzone/invoice_q1.pdf'' scenario_world))
      [''organized_docs'', ''Invoice'', ''20240115_Invoice_Acme_Q1_Invoice.pdf''] =
     Some (File ''Invoice #123 from Acme'') \<and>
   fst (process_new_file (scenario_env (Inr ''Invoice | Acme Q1 Invoice''))
          ''./dropzone/invoice_q1_copy.pdf''
          (snd (process_new_file (scenario_env (Inr ''Invoice | Acme Q1 Invoice''))
                  ''./dropzone/invoice_q1.pdf'' scenario_world))) = Inr Routed \<and>
   fs (snd (process_new_file (scenario_env (Inr ''Invoice | Acme Q1 Invoice''))
          ''./dropzone/invoice_q1_copy.pdf''
          (snd (process_new_file (scenario_env (Inr ''Invoice | Acme Q1 Invoice''))
                  ''./dropzone/invoice_q1.pdf'' scenario_world))))
      [''organized_docs'', ''Invoice'', ''20240115_Invoice_Acme_Q1_Invoice.pdf''] =
     Some (File ''Invoice #123 from Acme, second copy'') \<and>
   fs (snd (process_new_file (scenario_env (Inr ''Invoice | Acme Q1 Invoice''))
          ''./dropzone/invoice_q1_copy.pdf''
          (snd (process_new_file (scenario_env (Inr ''Invoice | Acme Q1 Invoice''))
                  ''./dropzone/invoice_q1.pdf'' scenario_world))))
      [''organized_docs'', ''Invoice'', ''20240115_Invoice_Acme_Q1_Invoice_1.pdf''] = None \<and>
   \<not> (\<exists>k. fs (snd (process_new_file (scenario_env (Inr ''Invoice | Acme Q1 Invoice''))
          ''./dropzone/invoice_q1_copy.pdf''
          (snd (process_new_file (scenario_env (Inr ''Invoice | Acme Q1 Invoice''))
                  ''./dropzone/invoice_q1.pdf'' scenario_world)))) k =
        Some (File ''Invoice #123 from Acme''))"
proof -
  define E where "E = scenario_env (Inr ''Invoice | Acme Q1 Invoice'')"
  define w1 where "w1 = snd (process_new_file E ''./dropzone/invoice_q1.pdf'' scenario_world)"
  have r1: "fst (process_new_file E ''./dropzone/invoice_q1.pdf'' scenario_world) = Inr Routed"
    and f1: "fs w1 = archived_fs"
    unfolding w1_def by (rule scenario_run; simp add: E_def)+
  have r2: "fst (process_new_file E ''./dropzone/invoice_q1_copy.pdf'' w1) = Inr Routed"
    and f2: "fs (snd (process_new_file E ''./dropzone/invoice_q1_copy.pdf'' w1)) =
           archived_fs([''dropzone'', ''invoice_q1_copy.pdf''] := None,
                [''organized_docs'', ''Invoice'', ''20240115_Invoice_Acme_Q1_Invoice.pdf''] \<mapsto>
                  File ''Invoice #123 from Acme, second copy'')"
    by (rule archived_run; simp add: E_def f1)+
  have a: "archived_fs [''organized_docs'', ''Invoice'', ''20240115_Invoice_Acme_Q1_Invoice.pdf''] =
     Some (File ''Invoice #123 from Acme'')"
    by (simp add: archived_fs_def)
  have b: "archived_fs [''organized_docs'', ''Invoice'', ''20240115_Invoice_Acme_Q1_Invoice_1.pdf''] = None"
    by (simp add: archived_fs_def scenario_fs_def)
  have c: "\<not> (\<exists>k. (archived_fs([''dropzone'', ''invoice_q1_copy.pdf''] := None,
                [''organized_docs'', ''Invoice'', ''20240115_Invoice_Acme_Q1_Invoice.pdf''] \<mapsto>
                  File ''Invoice #123 from Acme, second copy'')) k = Some (File ''Invoice #123 from Acme''))"
    by (simp add: archived_fs_def scenario_fs_def)
  show ?thesis
    unfolding E_def[symmetric] w1_def[symmetric]
    using r1 r2 a b c by (simp add: f1 f2)
qed

subsection \<open>C2: responses with fewer than two parts\<close>

text \<open>
  Claim C2, as the code has it. When the stripped response splits into fewer than two
  parts (it has no bar), the default pair is returned. The code does not look at
  whether a part is empty.
\<close>

theorem C2_fewer_than_two_parts_falls_back:
  assumes "generate_content E (prompt_template @ take 2000 text) = Inr response"
      and "length (str_split (CHR ''|'') (strip response)) < 2"
  shows "fst (analyze_document_with_ai E text w) = Inr (''Unclassified'', ''Unknown_Subject'')"
  using assms by (simp add: analyze_fst str_split_length_lt_2 parse_response_no_bar)

text \<open>
  A response without a bar.
\<close>

theorem C2_fewer_than_two_parts_witness:
  "generate_content (scenario_env (Inr ''Invoice Acme Q1'')) (prompt_template @ take 2000 ''Invoice #123 from Acme'')
     = Inr ''Invoice Acme Q1'' \<and>
   length (str_split (CHR ''|'') (strip ''Invoice Acme Q1'')) < 2 \<and>
   fst (analyze_document_with_ai (scenario_env (Inr ''Invoice Acme Q1'')) ''Invoice #123 from Acme'' scenario_world)
     = Inr (''Unclassified'', ''Unknown_Subject'')"
proof -
  have h1: "generate_content (scenario_env (Inr ''Invoice Acme Q1'')) (prompt_template @ take 2000 ''Invoice #123 from Acme'')
     = Inr ''Invoice Acme Q1''"
    by (simp add: scenario_env_def)
  have h2: "length (str_split (CHR ''|'') (strip ''Invoice Acme Q1'')) < 2"
    by (simp add: strip_def lstrip_def rstrip_def isspace_def)
  from C2_fewer_than_two_parts_falls_back[OF h1 h2, of scenario_world] h1 h2
  show ?thesis by blast
qed

text \<open>
  Claim C2 as stated fails: for the response \<^verbatim>\<open>| Quarterly Report\<close> the first part
  is empty after trimming, and the pair returned has the empty category; it is not the
  default pair.
\<close>

theorem C2_empty_part_counterexample:
  "strip (hd (str_split (CHR ''|'') (strip ''| Quarterly Report''))) = [] \<and>
   fst (analyze_document_with_ai (scenario_env (Inr ''| Quarterly Report''))
          ''Invoice #123 from Acme'' scenario_world) = Inr ([], ''Quarterly_Report'') \<and>
   fst (analyze_document_with_ai (scenario_env (Inr ''| Quarterly Report''))
          ''Invoice #123 from Acme'' scenario_world) \<noteq> Inr (''Unclassified'', ''Unknown_Subject'')"
  by (simp add: analyze_fst scenario_env_def parse_response_def Let_def index_def
        strip_def lstrip_def rstrip_def isspace_def replace_def)

subsection \<open>C3: a directory that cannot be made\<close>

text \<open>
  Claim C3 against the code. The service answers \<^verbatim>\<open>Legal/NDA | Acme NDA\<close>; the
  mkdir of \<^verbatim>\<open>./organized_docs/Legal/NDA\<close> finds no parent directory and raises
  FileNotFoundError. The exception leaves \<^verbatim>\<open>process_new_file\<close>: there is no Failed
  outcome, and the audit log holds the detection record only.
\<close>

theorem C3_mkdir_failure_escapes:
  "fst (process_new_file (scenario_env (Inr ''Legal/NDA | Acme NDA''))
          ''./dropzone/invoice_q1.pdf'' scenario_world) =
     Inl (PyExc ''FileNotFoundError'' ''No such file or directory'') \<and>
   audit_log (snd (process_new_file (scenario_env (Inr ''Legal/NDA | Acme NDA''))
          ''./dropzone/invoice_q1.pdf'' scenario_world)) =
     [(INFO, detected_message ''invoice_q1.pdf'')] \<and>
   fs (snd (process_new_file (scenario_env (Inr ''Legal/NDA | Acme NDA''))
          ''./dropzone/invoice_q1.pdf'' scenario_world)) = scenario_fs"
proof -
  define E' where "E' = scenario_env (Inr ''Legal/NDA | Acme NDA'')"
  have ex': "fst (extract_text_from_pdf E' ''./dropzone/invoice_q1.pdf'' scenario_world) =
              Some ''Invoice #123 from Acme''"
    by (rule scenario_extract) (simp_all add: E'_def)
  have cl': "fst (analyze_document_with_ai E' ''Invoice #123 from Acme'' scenario_world) =
              Inr (''Legal/NDA'', ''Acme_NDA'')"
    unfolding E'_def by (rule slash_category_classify)
  have pr: "parse_response ''Legal/NDA | Acme NDA'' = Inr (''Legal/NDA'', ''Acme_NDA'')"
    by (simp add: parse_response_def Let_def string_eval)
  have lg: "audit_log (snd (analyze_document_with_ai E' ''Invoice #123 from Acme''
                (logging_info (detected_message ''invoice_q1.pdf'') scenario_world))) =
            [(INFO, detected_message ''invoice_q1.pdf'')]"
    by (subst analyze_log_parsed[OF _ pr]) (simp_all add: E'_def)
  note r = process_routing[OF ex' text_A_not_empty cl']
  have r1: "fst (process_new_file E' ''./dropzone/invoice_q1.pdf'' scenario_world) =
     Inl (PyExc ''FileNotFoundError'' ''No such file or directory'')"
    using r(1) by (simp add: empty_category_paths slash_category_mkdir)
  have r2: "fs (snd (process_new_file E' ''./dropzone/invoice_q1.pdf'' scenario_world)) = scenario_fs"
    using r(2) by (simp add: empty_category_paths slash_category_mkdir)
  have l: "audit_log (snd (process_new_file E' ''./dropzone/invoice_q1.pdf'' scenario_world)) =
     [(INFO, detected_message ''invoice_q1.pdf'')]"
    using process_routing_log_exact[OF ex' text_A_not_empty cl']
    by (simp add: empty_category_paths slash_category_mkdir scenario_paths lg)
  show ?thesis
    unfolding E'_def[symmetric] using r1 r2 l by simp
qed

subsection \<open>C4: the category in the destination directory\<close>

text \<open>
  Claim C4, as the code has it. The router does not sanitise: for every file that
  reaches routing, the directory handed to mkdir is the archive root joined with the
  category exactly as the classifier returned it.
\<close>

theorem C4_category_used_as_returned:
  assumes ex: "fst (extract_text_from_pdf E file_path w) = Some text" and ne: "text \<noteq> []"
      and cl: "fst (analyze_document_with_ai E text w) = Inr (category, summary)"
  shows "\<exists>rest. calls (snd (process_new_file E file_path w)) =
           calls w @ [FitzOpen file_path, GenerateContent (prompt_template @ take 2000 text),
                      Mkdir (os_path_join PROCESSED_DIR category)] @ rest"
  using process_routing(3)[OF ex ne cl] by (simp add: target_folder_of_def)

text \<open>
  Scenario A: the directory is \<^verbatim>\<open>./organized_docs/Invoice\<close>.
\<close>

theorem C4_category_used_as_returned_witness:
  "\<exists>rest. calls (snd (process_new_file (scenario_env (Inr ''Invoice | Acme Q1 Invoice''))
                   ''./dropzone/invoice_q1.pdf'' scenario_world)) =
     [FitzOpen ''./dropzone/invoice_q1.pdf'',
      GenerateContent (prompt_template @ ''Invoice #123 from Acme''),
      Mkdir ''./organized_docs/Invoice''] @ rest"
proof -
  define E where "E = scenario_env (Inr ''Invoice | Acme Q1 Invoice'')"
  have ex: "fst (extract_text_from_pdf E ''./dropzone/invoice_q1.pdf'' scenario_world) =
              Some ''Invoice #123 from Acme''"
    by (rule scenario_extract) (simp_all add: E_def)
  have cl: "fst (analyze_document_with_ai E ''Invoice #123 from Acme'' scenario_world) =
              Inr (''Invoice'', ''Acme_Q1_Invoice'')"
    by (rule scenario_classify) (simp add: E_def)
  have t: "os_path_join PROCESSED_DIR ''Invoice'' = ''./organized_docs/Invoice''"
    by (simp add: PROCESSED_DIR_def os_path_join_def)
  from C4_category_used_as_returned[OF ex text_A_not_empty cl]
  show ?thesis
    unfolding E_def[symmetric] t by simp
qed

text \<open>
  Claim C4 as stated fails. For the response \<^verbatim>\<open>| Quarterly Report\<close> the category is
  empty; the directory made is the archive root itself, \<^verbatim>\<open>Other\<close> is not substituted,
  and the file lands in the archive root. For \<^verbatim>\<open>Legal/NDA | Acme NDA\<close> the directory
  handed to mkdir contains the separator of the category.
\<close>

theorem C4_unsanitised_category_counterexample:
  "fst (analyze_document_with_ai (scenario_env (Inr ''| Quarterly Report''))
          ''Invoice #123 from Acme'' scenario_world) = Inr ([], ''Quarterly_Report'') \<and>
   fst (process_new_file (scenario_env (Inr ''| Quarterly Report''))
          ''./dropzone/invoice_q1.pdf'' scenario_world) = Inr Routed \<and>
   Mkdir ''./organized_docs/'' \<in> set (calls (snd (process_new_file
          (scenario_env (Inr ''| Quarterly Report'')) ''./dropzone/invoice_q1.pdf'' scenario_world))) \<and>
   Mkdir ''./organized_docs/Other'' \<notin> set (calls (snd (process_new_file
          (scenario_env (Inr ''| Quarterly Report'')) ''./dropzone/invoice_q1.pdf'' scenario_world))) \<and>
   fs (snd (process_new_file (scenario_env (Inr ''| Quarterly Report''))
          ''./dropzone/invoice_q1.pdf'' scenario_world))
      [''organized_docs'', ''20240115__Quarterly_Report.pdf''] = Some (File ''Invoice #123 from Acme'') \<and>
   Mkdir ''./organized_docs/Legal/NDA'' \<in> set (calls (snd (process_new_file
          (scenario_env (Inr ''Legal/NDA | Acme NDA'')) ''./dropzone/invoice_q1.pdf'' scenario_world)))"
proof -
  define E where "E = scenario_env (Inr ''| Quarterly Report'')"
  define E' where "E' = scenario_env (Inr ''Legal/NDA | Acme NDA'')"
  have ex: "fst (extract_text_from_pdf E ''./dropzone/invoice_q1.pdf'' scenario_world) =
              Some ''Invoice #123 from Acme''"
    by (rule scenario_extract) (simp_all add: E_def)
  have ex': "fst (extract_text_from_pdf E' ''./dropzone/invoice_q1.pdf'' scenario_world) =
              Some ''Invoice #123 from Acme''"
    by (rule scenario_extract) (simp_all add: E'_def)
  have cl: "fst (analyze_document_with_ai E ''Invoice #123 from Acme'' scenario_world) =
              Inr ([], ''Quarterly_Report'')"
    unfolding E_def by (rule empty_category_classify)
  have cl': "fst (analyze_document_with_ai E' ''Invoice #123 from Acme'' scenario_world) =
              Inr (''Legal/NDA'', ''Acme_NDA'')"
    unfolding E'_def by (rule slash_category_classify)
  have d: "new_file_path_of E [] ''Quarterly_Report'' = ''./organized_docs/20240115__Quarterly_Report.pdf''"
    unfolding E_def by (rule empty_category_paths)
  have mv: "shutil_move E ''./dropzone/invoice_q1.pdf''
     ''./organized_docs/20240115__Quarterly_Report.pdf'' scenario_fs =
   (Inr ''./organized_docs/20240115__Quarterly_Report.pdf'',
    scenario_fs([''dropzone'', ''invoice_q1.pdf''] := None,
                [''organized_docs'', ''20240115__Quarterly_Report.pdf''] \<mapsto>
                  File ''Invoice #123 from Acme''))"
    by (rule empty_category_move) (simp add: E_def)
  have pf: "print_fault E = None" by (simp add: E_def)
  note r = process_routing[OF ex text_A_not_empty cl]
  have r1: "fst (process_new_file E ''./dropzone/invoice_q1.pdf'' scenario_world) = Inr Routed"
    using r(1) by (simp add: empty_category_paths d empty_category_mkdir mv pf)
  have r2: "fs (snd (process_new_file E ''./dropzone/invoice_q1.pdf'' scenario_world)) =
      scenario_fs([''dropzone'', ''invoice_q1.pdf''] := None,
                [''organized_docs'', ''20240115__Quarterly_Report.pdf''] \<mapsto>
                  File ''Invoice #123 from Acme'')"
    using r(2) by (simp add: empty_category_paths d empty_category_mkdir mv)
  have r3: "calls (snd (process_new_file E ''./dropzone/invoice_q1.pdf'' scenario_world)) =
      [FitzOpen ''./dropzone/invoice_q1.pdf'',
       GenerateContent (prompt_template @ ''Invoice #123 from Acme''),
       Mkdir ''./organized_docs/'',
       Move ''./dropzone/invoice_q1.pdf'' ''./organized_docs/20240115__Quarterly_Report.pdf'',
       Print (''Processed: '' @ new_filename_of (strftime_Ymd E) [] ''Quarterly_Report'')]"
    using r(3) by (simp add: empty_category_paths d empty_category_mkdir mv)
  have r3': "Mkdir ''./organized_docs/Legal/NDA'' \<in>
      set (calls (snd (process_new_file E' ''./dropzone/invoice_q1.pdf'' scenario_world)))"
    using process_routing(3)[OF ex' text_A_not_empty cl'] by (simp add: empty_category_paths)
  show ?thesis
    unfolding E_def[symmetric] E'_def[symmetric]
    using cl r1 r3' by (simp add: r2 r3)
qed

subsection \<open>C5: the destination path\<close>

text \<open>
  Claim C5. When a file is routed (the workflow ends Routed), the path the move is
  called with, and the path of the success record, is the archive root joined with the
  category, joined with \<^verbatim>\<open>{YYYYMMDD}_{category}_{summary}.pdf\<close>, the date being the
  clock's at that time. The file's contents are at that path afterwards; only when the
  path named a directory before the move are they inside that directory, under the
  source's name.
\<close>

theorem C5_destination_path:
  assumes ex: "fst (extract_text_from_pdf E file_path w) = Some text"
      and cl: "fst (analyze_document_with_ai E text w) = Inr (category, summary)"
      and routed: "fst (process_new_file E file_path w) = Inr Routed"
      and src: "fs w (resolve file_path) = Some (File content)"
  defines "dest \<equiv> os_path_join (os_path_join PROCESSED_DIR category)
                     (strftime_Ymd E @ ''_'' @ category @ ''_'' @ summary @ ''.pdf'')"
  shows "Move file_path dest \<in> set (calls (snd (process_new_file E file_path w))) \<and>
         last (audit_log (snd (process_new_file E file_path w))) =
           (INFO, success_message (basename file_path) dest) \<and>
         (fs (snd (process_new_file E file_path w)) (resolve dest) = Some (File content) \<or>
          isdir (fs (snd (process_new_file E file_path w))) dest \<and>
          fs (snd (process_new_file E file_path w))
            (resolve (os_path_join dest (basename file_path))) = Some (File content))"
proof -
  define f4 where "f4 = snd (path_mkdir E (target_folder_of category) (fs w))"
  have dest: "dest = new_file_path_of E category summary"
    by (simp add: dest_def new_file_path_of_def target_folder_of_def new_filename_of_def)
  have ne: "text \<noteq> []" using ex routed by (rule process_routed_not_empty)
  obtain u where mk: "fst (path_mkdir E (target_folder_of category) (fs w)) = Inr u"
    using process_routed_steps(1)[OF ex cl routed] by blast
  obtain r where mv: "fst (shutil_move E file_path dest f4) = Inr r"
    using process_routed_steps(2)[OF ex cl routed] by (auto simp: dest f4_def)
  have pf: "print_fault E = None" using process_routed_steps(3)[OF ex cl routed] .
  have s4: "f4 (resolve file_path) = Some (File content)"
    using src by (simp add: f4_def mkdir_keeps)
  have fs': "fs (snd (process_new_file E file_path w)) = snd (shutil_move E file_path dest f4)"
    using process_routing(2)[OF ex ne cl] mk by (simp add: f4_def dest)
  note ok = move_ok[where f=f4 and s=file_path and c=content, OF s4 mv]
  have c: "Move file_path dest \<in> set (calls (snd (process_new_file E file_path w)))"
    using process_routing(3)[OF ex ne cl] mk by (simp add: dest)
  have l: "last (audit_log (snd (process_new_file E file_path w))) =
           (INFO, success_message (basename file_path) dest)"
    using process_routing_log[OF ex ne cl] mk mv pf by (auto simp: dest f4_def)
  have land: "fs (snd (process_new_file E file_path w)) (resolve dest) = Some (File content) \<or>
          isdir (fs (snd (process_new_file E file_path w))) dest \<and>
          fs (snd (process_new_file E file_path w))
            (resolve (os_path_join dest (basename file_path))) = Some (File content)"
  proof (cases "isdir f4 dest")
    case False
    then have "real_dst_of f4 file_path dest = dest" by (simp add: real_dst_of_def)
    then show ?thesis using ok(2) by (simp add: fs')
  next
    case True
    then have rd: "real_dst_of f4 file_path dest = os_path_join dest (basename file_path)"
      by (simp add: real_dst_of_def)
    have "key_isdir (snd (shutil_move E file_path dest f4)) (resolve dest)"
      using True
      by (intro move_keeps_isdir[where f=f4 and s=file_path and c=content, OF s4])
         (simp add: isdir_def)
    then show ?thesis using ok(2) rd by (simp add: fs' isdir_def)
  qed
  from c l land show ?thesis by blast
qed

text \<open>
  Scenario A: the invoice of 2024-01-15 lands at
  \<^verbatim>\<open>./organized_docs/Invoice/20240115_Invoice_Acme_Q1_Invoice.pdf\<close>.
\<close>

theorem C5_scenario_A_witness:
  "fst (process_new_file (scenario_env (Inr ''Invoice | Acme Q1 Invoice''))
          ''./dropzone/invoice_q1.pdf'' scenario_world) = Inr Routed \<and>
   Move ''./dropzone/invoice_q1.pdf''
        ''./organized_docs/Invoice/20240115_Invoice_Acme_Q1_Invoice.pdf''
     \<in> set (calls (snd (process_new_file (scenario_env (Inr ''Invoice | Acme Q1 Invoice''))
          ''./dropzone/invoice_q1.pdf'' scenario_world))) \<and>
   last (audit_log (snd (process_new_file (scenario_env (Inr ''Invoice | Acme Q1 Invoice''))
          ''./dropzone/invoice_q1.pdf'' scenario_world))) =
     (INFO, success_message ''invoice_q1.pdf''
              ''./organized_docs/Invoice/20240115_Invoice_Acme_Q1_Invoice.pdf'') \<and>
   fs (snd (process_new_file (scenario_env (Inr ''Invoice | Acme Q1 Invoice''))
          ''./dropzone/invoice_q1.pdf'' scenario_world))
      [''organized_docs'', ''Invoice'', ''20240115_Invoice_Acme_Q1_Invoice.pdf''] =
     Some (File ''Invoice #123 from Acme'')"
proof -
  define E where "E = scenario_env (Inr ''Invoice | Acme Q1 Invoice'')"
  have ex: "fst (extract_text_from_pdf E ''./dropzone/invoice_q1.pdf'' scenario_world) =
              Some ''Invoice #123 from Acme''"
    by (rule scenario_extract) (simp_all add: E_def)
  have cl: "fst (analyze_document_with_ai E ''Invoice #123 from Acme'' scenario_world) =
              Inr (''Invoice'', ''Acme_Q1_Invoice'')"
    by (rule scenario_classify) (simp add: E_def)
  have routed: "fst (process_new_file E ''./dropzone/invoice_q1.pdf'' scenario_world) = Inr Routed"
    and f: "fs (snd (process_new_file E ''./dropzone/invoice_q1.pdf'' scenario_world)) = archived_fs"
    by (rule scenario_run; simp add: E_def)+
  have src: "fs scenario_world (resolve ''./dropzone/invoice_q1.pdf'') =
               Some (File ''Invoice #123 from Acme'')"
    by (simp add: scenario_paths scenario_fs_def)
  have d: "os_path_join (os_path_join PROCESSED_DIR ''Invoice'')
             (strftime_Ymd E @ ''_'' @ ''Invoice'' @ ''_'' @ ''Acme_Q1_Invoice'' @ ''.pdf'') =
           ''./organized_docs/Invoice/20240115_Invoice_Acme_Q1_Invoice.pdf''"
    by (simp add: E_def PROCESSED_DIR_def os_path_join_def)
  have nd: "\<not> isdir archived_fs ''./organized_docs/Invoice/20240115_Invoice_Acme_Q1_Invoice.pdf''"
    by (simp add: isdir_def key_isdir_def scenario_paths archived_fs_def)
  from C5_destination_path[OF ex cl routed src] routed nd
  show ?thesis
    unfolding E_def[symmetric] d by (simp add: f scenario_paths)
qed

subsection \<open>C6: the summary\<close>

text \<open>
  Claim C6, as the code has it. For a response with a bar, the stripped response is
  split at every bar, and the summary is the second field only (the text between the
  first bar and the second, or the rest when there is no second bar), stripped, with
  each space replaced by one underscore. Runs are not collapsed, whitespace other than
  the space is kept, and nothing after a second bar is used.
\<close>

theorem C6_summary_is_second_field:
  assumes "generate_content E (prompt_template @ take 2000 text) = Inr response"
      and "CHR ''|'' \<in> set response"
  shows "fst (analyze_document_with_ai E text w) =
           Inr (strip (first_field (strip response)),
                replace (CHR '' '') (CHR ''_'')
                  (strip (first_field (after_first_bar (strip response)))))"
  using assms by (simp add: analyze_fst bar_in_strip parse_response_bar)

text \<open>
  The response of Scenario A.
\<close>

theorem C6_summary_is_second_field_witness:
  "generate_content (scenario_env (Inr ''Invoice | Acme Q1 Invoice''))
     (prompt_template @ take 2000 ''Invoice #123 from Acme'') = Inr ''Invoice | Acme Q1 Invoice'' \<and>
   CHR ''|'' \<in> set ''Invoice | Acme Q1 Invoice'' \<and>
   fst (analyze_document_with_ai (scenario_env (Inr ''Invoice | Acme Q1 Invoice''))
          ''Invoice #123 from Acme'' scenario_world) = Inr (''Invoice'', ''Acme_Q1_Invoice'')"
proof -
  have h1: "generate_content (scenario_env (Inr ''Invoice | Acme Q1 Invoice''))
     (prompt_template @ take 2000 ''Invoice #123 from Acme'') = Inr ''Invoice | Acme Q1 Invoice''"
    by (simp add: scenario_env_def)
  have h2: "CHR ''|'' \<in> set ''Invoice | Acme Q1 Invoice''" by simp
  have v: "(strip (first_field (strip ''Invoice | Acme Q1 Invoice'')),
            replace (CHR '' '') (CHR ''_'')
              (strip (first_field (after_first_bar (strip ''Invoice | Acme Q1 Invoice''))))) =
           (''Invoice'', ''Acme_Q1_Invoice'')"
    by (simp add: strip_def lstrip_def rstrip_def isspace_def replace_def first_field_def
          after_first_bar_def)
  from C6_summary_is_second_field[OF h1 h2, of scenario_world] h1 h2 v
  show ?thesis by simp
qed

text \<open>
  Claim C6 as stated fails: for \<^verbatim>\<open>Invoice | Acme  Q1 | Draft\<close> the code returns the
  summary \<^verbatim>\<open>Acme__Q1\<close>, where the remainder after the first bar, with its runs of
  whitespace collapsed, is \<^verbatim>\<open>Acme_Q1_|_Draft\<close>.
\<close>

theorem C6_summary_counterexample:
  "fst (analyze_document_with_ai (scenario_env (Inr ''Invoice | Acme  Q1 | Draft''))
          ''Invoice #123 from Acme'' scenario_world) = Inr (''Invoice'', ''Acme__Q1'') \<and>
   spec_summary ''Invoice | Acme  Q1 | Draft'' = ''Acme_Q1_|_Draft''"
  by (simp add: analyze_fst scenario_env_def parse_response_def Let_def index_def
        strip_def lstrip_def rstrip_def isspace_def replace_def spec_summary_def
        after_first_bar_def)

subsection \<open>C7: extraction failures\<close>

text \<open>
  Claim C7. When extraction fails (it returns None) or yields no text, the workflow
  ends Skipped; the only call made is the one that opens the document (no call to the
  service, no mkdir, no move), and the file system is unchanged: the source file stays
  where it is.
\<close>

theorem C7_extraction_failure_skips:
  assumes "fst (extract_text_from_pdf E file_path w) = None \<or>
           fst (extract_text_from_pdf E file_path w) = Some []"
  shows "fst (process_new_file E file_path w) = Inr Skipped \<and>
         fs (snd (process_new_file E file_path w)) = fs w \<and>
         calls (snd (process_new_file E file_path w)) = calls w @ [FitzOpen file_path]"
  using process_skipped[OF assms] by simp

text \<open>
  Scenario B: the zero-byte file \<^verbatim>\<open>bad.pdf\<close>.
\<close>

theorem C7_extraction_failure_witness:
  "fst (extract_text_from_pdf (scenario_env (Inr ''Invoice | Acme Q1 Invoice''))
          ''./dropzone/bad.pdf'' scenario_world) = None \<and>
   fst (process_new_file (scenario_env (Inr ''Invoice | Acme Q1 Invoice''))
          ''./dropzone/bad.pdf'' scenario_world) = Inr Skipped \<and>
   fs (snd (process_new_file (scenario_env (Inr ''Invoice | Acme Q1 Invoice''))
          ''./dropzone/bad.pdf'' scenario_world)) = scenario_fs \<and>
   calls (snd (process_new_file (scenario_env (Inr ''Invoice | Acme Q1 Invoice''))
          ''./dropzone/bad.pdf'' scenario_world)) = [FitzOpen ''./dropzone/bad.pdf'']"
proof -
  have h: "fst (extract_text_from_pdf (scenario_env (Inr ''Invoice | Acme Q1 Invoice''))
          ''./dropzone/bad.pdf'' scenario_world) = None"
    by (simp add: extract_text_from_pdf_def Let_def scenario_env_def scenario_world_def
          scenario_fs_def pdf_reader_def resolve_def)
  have w: "fs scenario_world = scenario_fs" "calls scenario_world = []"
    by (simp_all add: scenario_world_def)
  from C7_extraction_failure_skips[of "scenario_env (Inr ''Invoice | Acme Q1 Invoice'')"
      "''./dropzone/bad.pdf''" scenario_world] h w
  show ?thesis by simp
qed

subsection \<open>C8: a move that fails\<close>

text \<open>
  Claim C8. When the directory has been made and the move of a regular file raises,
  the workflow returns normally with the outcome Failed, the last record of the audit
  log is the error record of that failure, and the source file is where it was, with its
  contents.
\<close>

theorem C8_failed_move_leaves_source:
  assumes ex: "fst (extract_text_from_pdf E file_path w) = Some text" and ne: "text \<noteq> []"
      and cl: "fst (analyze_document_with_ai E text w) = Inr (category, summary)"
      and mk: "fst (path_mkdir E (target_folder_of category) (fs w)) = Inr ()"
      and mv: "fst (shutil_move E file_path (new_file_path_of E category summary)
                     (snd (path_mkdir E (target_folder_of category) (fs w)))) = Inl e"
      and src: "fs w (resolve file_path) = Some (File content)"
  shows "fst (process_new_file E file_path w) = Inr Failed \<and>
         last (audit_log (snd (process_new_file E file_path w))) =
           (ERROR, failure_message (basename file_path) e) \<and>
         fs (snd (process_new_file E file_path w)) (resolve file_path) = Some (File content)"
proof -
  have s4: "snd (path_mkdir E (target_folder_of category) (fs w)) (resolve file_path) = Some (File content)"
    using src by (simp add: mkdir_keeps)
  have "fst (process_new_file E file_path w) = Inr Failed"
    using process_routing(1)[OF ex ne cl] mk mv by simp
  moreover have "last (audit_log (snd (process_new_file E file_path w))) =
           (ERROR, failure_message (basename file_path) e)"
    using process_routing_log[OF ex ne cl] mk mv by auto
  moreover have "fs (snd (process_new_file E file_path w)) (resolve file_path) = Some (File content)"
    using process_routing(2)[OF ex ne cl] mk
      move_fail_src[where f="snd (path_mkdir E (target_folder_of category) (fs w))"
        and s=file_path and c=content, OF s4 mv]
    by simp
  ultimately show ?thesis by simp
qed

text \<open>
  The archive is on another volume and the copy finds no space.
\<close>

theorem C8_failed_move_witness:
  "fst (shutil_move
          (faulty_env (Some (PyExc ''OSError'' ''Invalid cross-device link''))
             (Some (PyExc ''OSError'' ''No space left on device'', None)) None)
          ''./dropzone/invoice_q1.pdf''
          ''./organized_docs/Invoice/20240115_Invoice_Acme_Q1_Invoice.pdf''
          (snd (path_mkdir
                  (faulty_env (Some (PyExc ''OSError'' ''Invalid cross-device link''))
                     (Some (PyExc ''OSError'' ''No space left on device'', None)) None)
                  ''./organized_docs/Invoice'' scenario_fs))) =
     Inl (PyExc ''OSError'' ''No space left on device'') \<and>
   fst (process_new_file
          (faulty_env (Some (PyExc ''OSError'' ''Invalid cross-device link''))
             (Some (PyExc ''OSError'' ''No space left on device'', None)) None)
          ''./dropzone/invoice_q1.pdf'' scenario_world) = Inr Failed \<and>
   last (audit_log (snd (process_new_file
          (faulty_env (Some (PyExc ''OSError'' ''Invalid cross-device link''))
             (Some (PyExc ''OSError'' ''No space left on device'', None)) None)
          ''./dropzone/invoice_q1.pdf'' scenario_world))) =
     (ERROR, ''Failed to route file invoice_q1.pdf: No space left on device'') \<and>
   fs (snd (process_new_file
          (faulty_env (Some (PyExc ''OSError'' ''Invalid cross-device link''))
             (Some (PyExc ''OSError'' ''No space left on device'', None)) None)
          ''./dropzone/invoice_q1.pdf'' scenario_world))
      [''dropzone'', ''invoice_q1.pdf''] = Some (File ''Invoice #123 from Acme'')"
proof -
  define E where "E = faulty_env (Some (PyExc ''OSError'' ''Invalid cross-device link''))
             (Some (PyExc ''OSError'' ''No space left on device'', None)) None"
  have ex: "fst (extract_text_from_pdf E ''./dropzone/invoice_q1.pdf'' scenario_world) =
              Some ''Invoice #123 from Acme''"
    by (rule scenario_extract) (simp_all add: E_def)
  have cl: "fst (analyze_document_with_ai E ''Invoice #123 from Acme'' scenario_world) =
              Inr (''Invoice'', ''Acme_Q1_Invoice'')"
    by (rule scenario_classify) (simp add: E_def)
  have d: "new_file_path_of E ''Invoice'' ''Acme_Q1_Invoice'' =
             ''./organized_docs/Invoice/20240115_Invoice_Acme_Q1_Invoice.pdf''"
    by (rule scenario_dest) (simp add: E_def)
  have m: "path_mkdir E ''./organized_docs/Invoice'' scenario_fs =
     (Inr (), scenario_fs([''organized_docs'', ''Invoice''] \<mapsto> Dir))"
    by (rule scenario_mkdir) (simp add: E_def)
  have mk: "fst (path_mkdir E (target_folder_of ''Invoice'') (fs scenario_world)) = Inr ()"
    by (simp add: scenario_paths m)
  have mv: "fst (shutil_move E ''./dropzone/invoice_q1.pdf''
                  (new_file_path_of E ''Invoice'' ''Acme_Q1_Invoice'')
                  (snd (path_mkdir E (target_folder_of ''Invoice'') (fs scenario_world)))) =
            Inl (PyExc ''OSError'' ''No space left on device'')"
    by (simp add: scenario_paths m d) (simp add: E_def scenario_move_no_space)
  have src: "fs scenario_world (resolve ''./dropzone/invoice_q1.pdf'') =
               Some (File ''Invoice #123 from Acme'')"
    by (simp add: scenario_paths scenario_fs_def)
  have msg: "failure_message ''invoice_q1.pdf'' (PyExc ''OSError'' ''No space left on device'') =
             ''Failed to route file invoice_q1.pdf: No space left on device''"
    by (simp add: failure_message_def)
  from C8_failed_move_leaves_source[OF ex text_A_not_empty cl mk mv src] mv
  show ?thesis
    unfolding E_def[symmetric] by (simp add: scenario_paths d msg)
qed

subsection \<open>C9: the classifier is total\<close>

text \<open>
  Claim C9. \<^verbatim>\<open>analyze_document_with_ai\<close> returns a pair for every text and
  every behaviour of the service, and never raises: when the call raises (a timeout
  included) or the parse of the response raises, it returns
  \<^verbatim>\<open>("Unclassified", "Unknown_Subject")\<close>.
\<close>

theorem C9_classify_total:
  "(\<exists>category summary. fst (analyze_document_with_ai E text w) = Inr (category, summary)) \<and>
   (\<forall>e. generate_content E (prompt_template @ take 2000 text) = Inl e \<longrightarrow>
        fst (analyze_document_with_ai E text w) = Inr (''Unclassified'', ''Unknown_Subject'')) \<and>
   (\<forall>response e. generate_content E (prompt_template @ take 2000 text) = Inr response \<and>
        parse_response response = Inl e \<longrightarrow>
        fst (analyze_document_with_ai E text w) = Inr (''Unclassified'', ''Unknown_Subject''))"
  using analyze_returns[of E _ w] by (simp add: analyze_fst)

text \<open>
  The service times out: the default pair is returned.
\<close>

theorem C9_classify_total_witness:
  "generate_content (scenario_env (Inl (PyExc ''DeadlineExceeded'' ''504 Deadline Exceeded'')))
     (prompt_template @ take 2000 ''Invoice #123 from Acme'') =
     Inl (PyExc ''DeadlineExceeded'' ''504 Deadline Exceeded'') \<and>
   fst (analyze_document_with_ai
          (scenario_env (Inl (PyExc ''DeadlineExceeded'' ''504 Deadline Exceeded'')))
          ''Invoice #123 from Acme'' scenario_world) = Inr (''Unclassified'', ''Unknown_Subject'')"
proof -
  have h: "generate_content (scenario_env (Inl (PyExc ''DeadlineExceeded'' ''504 Deadline Exceeded'')))
     (prompt_template @ take 2000 ''Invoice #123 from Acme'') =
     Inl (PyExc ''DeadlineExceeded'' ''504 Deadline Exceeded'')"
    by (simp add: scenario_env_def)
  from C9_classify_total[of "scenario_env (Inl (PyExc ''DeadlineExceeded'' ''504 Deadline Exceeded''))"
      "''Invoice #123 from Acme''" scenario_world] h
  show ?thesis by blast
qed

subsection \<open>C10: what a failed move leaves behind\<close>

text \<open>
  Claim C10, as the code has it. The mkdir is called before the move. When the move of
  a regular file then raises, the category directory is still there, the source file is
  unchanged, and every entry of the file system is unchanged except the category
  directory and the path the move writes to (the computed path, or that path joined with
  the source's name): the copy that \<^verbatim>\<open>shutil.move\<close> falls back on may have written
  there before the move raised.
\<close>

theorem C10_directory_persists_after_failed_move:
  assumes ex: "fst (extract_text_from_pdf E file_path w) = Some text" and ne: "text \<noteq> []"
      and cl: "fst (analyze_document_with_ai E text w) = Inr (category, summary)"
      and mk: "fst (path_mkdir E (target_folder_of category) (fs w)) = Inr ()"
      and mv: "fst (shutil_move E file_path (new_file_path_of E category summary)
                     (snd (path_mkdir E (target_folder_of category) (fs w)))) = Inl e"
      and src: "fs w (resolve file_path) = Some (File content)"
  shows "calls (snd (process_new_file E file_path w)) =
           calls w @ [FitzOpen file_path, GenerateContent (prompt_template @ take 2000 text),
                      Mkdir (target_folder_of category),
                      Move file_path (new_file_path_of E category summary)] \<and>
         isdir (fs (snd (process_new_file E file_path w))) (target_folder_of category) \<and>
         fs (snd (process_new_file E file_path w)) (resolve file_path) = Some (File content) \<and>
         (\<forall>k. k \<noteq> resolve (target_folder_of category) \<and>
              k \<noteq> resolve (new_file_path_of E category summary) \<and>
              k \<noteq> resolve (os_path_join (new_file_path_of E category summary) (basename file_path))
              \<longrightarrow> fs (snd (process_new_file E file_path w)) k = fs w k)"
proof -
  define f4 where "f4 = snd (path_mkdir E (target_folder_of category) (fs w))"
  define dest where "dest = new_file_path_of E category summary"
  have s4: "f4 (resolve file_path) = Some (File content)"
    using src by (simp add: f4_def mkdir_keeps)
  have mv': "fst (shutil_move E file_path dest f4) = Inl e"
    using mv by (simp add: f4_def dest_def)
  have fs': "fs (snd (process_new_file E file_path w)) = snd (shutil_move E file_path dest f4)"
    using process_routing(2)[OF ex ne cl] mk by (simp add: f4_def dest_def)
  have "calls (snd (process_new_file E file_path w)) =
           calls w @ [FitzOpen file_path, GenerateContent (prompt_template @ take 2000 text),
                      Mkdir (target_folder_of category),
                      Move file_path (new_file_path_of E category summary)]"
    using process_routing(3)[OF ex ne cl] mk mv by simp
  moreover have "isdir (fs (snd (process_new_file E file_path w))) (target_folder_of category)"
    unfolding fs' isdir_def
    by (rule move_keeps_isdir[where f=f4 and s=file_path and c=content, OF s4])
       (simp add: f4_def mkdir_ok_isdir[OF mk])
  moreover have "fs (snd (process_new_file E file_path w)) (resolve file_path) = Some (File content)"
    unfolding fs' by (rule move_fail_src[where f=f4 and s=file_path and c=content, OF s4 mv'])
  moreover have "\<forall>k. k \<noteq> resolve (target_folder_of category) \<and>
              k \<noteq> resolve (new_file_path_of E category summary) \<and>
              k \<noteq> resolve (os_path_join (new_file_path_of E category summary) (basename file_path))
              \<longrightarrow> fs (snd (process_new_file E file_path w)) k = fs w k"
  proof (intro allI impI)
    fix k
    assume k: "k \<noteq> resolve (target_folder_of category) \<and>
              k \<noteq> resolve (new_file_path_of E category summary) \<and>
              k \<noteq> resolve (os_path_join (new_file_path_of E category summary) (basename file_path))"
    then have "k \<noteq> resolve (real_dst_of f4 file_path dest)"
      using real_dst_cases[of f4 file_path dest] by (auto simp: dest_def)
    then have "snd (shutil_move E file_path dest f4) k = f4 k"
      by (rule move_fail_frame[where f=f4 and s=file_path and c=content, OF s4 mv'])
    also have "f4 k = fs w k"
      using k by (simp add: f4_def mkdir_frame)
    finally show "fs (snd (process_new_file E file_path w)) k = fs w k"
      by (simp add: fs')
  qed
  ultimately show ?thesis by blast
qed

text \<open>
  The drop zone cannot be written: the rename is refused, the copy succeeds, the removal
  of the source is refused. The new directory and the copy stay in the archive, the
  source stays in the drop zone, the other file of the drop zone is untouched.
\<close>

theorem C10_directory_persists_witness:
  "fst (shutil_move
          (faulty_env (Some (PyExc ''PermissionError'' ''Permission denied'')) None
             (Some (PyExc ''PermissionError'' ''Permission denied'')))
          ''./dropzone/invoice_q1.pdf''
          ''./organized_docs/Invoice/20240115_Invoice_Acme_Q1_Invoice.pdf''
          (snd (path_mkdir
                  (faulty_env (Some (PyExc ''PermissionError'' ''Permission denied'')) None
                     (Some (PyExc ''PermissionError'' ''Permission denied'')))
                  ''./organized_docs/Invoice'' scenario_fs))) =
     Inl (PyExc ''PermissionError'' ''Permission denied'') \<and>
   scenario_fs [''organized_docs'', ''Invoice''] = None \<and>
   calls (snd (process_new_file
          (faulty_env (Some (PyExc ''PermissionError'' ''Permission denied'')) None
             (Some (PyExc ''PermissionError'' ''Permission denied'')))
          ''./dropzone/invoice_q1.pdf'' scenario_world)) =
     [FitzOpen ''./dropzone/invoice_q1.pdf'',
      GenerateContent (prompt_template @ ''Invoice #123 from Acme''),
      Mkdir ''./organized_docs/Invoice'',
      Move ''./dropzone/invoice_q1.pdf''
           ''./organized_docs/Invoice/20240115_Invoice_Acme_Q1_Invoice.pdf''] \<and>
   isdir (fs (snd (process_new_file
          (faulty_env (Some (PyExc ''PermissionError'' ''Permission denied'')) None
             (Some (PyExc ''PermissionError'' ''Permission denied'')))
          ''./dropzone/invoice_q1.pdf'' scenario_world))) ''./organized_docs/Invoice'' \<and>
   fs (snd (process_new_file
          (faulty_env (Some (PyExc ''PermissionError'' ''Permission denied'')) None
             (Some (PyExc ''PermissionError'' ''Permission denied'')))
          ''./dropzone/invoice_q1.pdf'' scenario_world))
      [''dropzone'', ''invoice_q1.pdf''] = Some (File ''Invoice #123 from Acme'') \<and>
   fs (snd (process_new_file
          (faulty_env (Some (PyExc ''PermissionError'' ''Permission denied'')) None
             (Some (PyExc ''PermissionError'' ''Permission denied'')))
          ''./dropzone/invoice_q1.pdf'' scenario_world))
      [''dropzone'', ''invoice_q1_copy.pdf''] =
     Some (File ''Invoice #123 from Acme, second copy'')"
proof -
  define E where "E = faulty_env (Some (PyExc ''PermissionError'' ''Permission denied'')) None
             (Some (PyExc ''PermissionError'' ''Permission denied''))"
  have ex: "fst (extract_text_from_pdf E ''./dropzone/invoice_q1.pdf'' scenario_world) =
              Some ''Invoice #123 from Acme''"
    by (rule scenario_extract) (simp_all add: E_def)
  have cl: "fst (analyze_document_with_ai E ''Invoice #123 from Acme'' scenario_world) =
              Inr (''Invoice'', ''Acme_Q1_Invoice'')"
    by (rule scenario_classify) (simp add: E_def)
  have d: "new_file_path_of E ''Invoice'' ''Acme_Q1_Invoice'' =
             ''./organized_docs/Invoice/20240115_Invoice_Acme_Q1_Invoice.pdf''"
    by (rule scenario_dest) (simp add: E_def)
  have m: "path_mkdir E ''./organized_docs/Invoice'' scenario_fs =
     (Inr (), scenario_fs([''organized_docs'', ''Invoice''] \<mapsto> Dir))"
    by (rule scenario_mkdir) (simp add: E_def)
  have mk: "fst (path_mkdir E (target_folder_of ''Invoice'') (fs scenario_world)) = Inr ()"
    by (simp add: scenario_paths m)
  have mv: "fst (shutil_move E ''./dropzone/invoice_q1.pdf''
                  (new_file_path_of E ''Invoice'' ''Acme_Q1_Invoice'')
                  (snd (path_mkdir E (target_folder_of ''Invoice'') (fs scenario_world)))) =
            Inl (PyExc ''PermissionError'' ''Permission denied'')"
    by (simp add: scenario_paths m d) (simp add: E_def scenario_move_unlink_denied)
  have src: "fs scenario_world (resolve ''./dropzone/invoice_q1.pdf'') =
               Some (File ''Invoice #123 from Acme'')"
    by (simp add: scenario_paths scenario_fs_def)
  have k: "[''dropzone'', ''invoice_q1_copy.pdf''] \<noteq> resolve (target_folder_of ''Invoice'') \<and>
           [''dropzone'', ''invoice_q1_copy.pdf''] \<noteq>
             resolve (new_file_path_of E ''Invoice'' ''Acme_Q1_Invoice'') \<and>
           [''dropzone'', ''invoice_q1_copy.pdf''] \<noteq>
             resolve (os_path_join (new_file_path_of E ''Invoice'' ''Acme_Q1_Invoice'')
                        (basename ''./dropzone/invoice_q1.pdf''))"
    by (simp add: d scenario_paths) (simp add: path_eval)
  have old: "scenario_fs [''dropzone'', ''invoice_q1_copy.pdf''] =
               Some (File ''Invoice #123 from Acme, second copy'')"
            "scenario_fs [''organized_docs'', ''Invoice''] = None"
    by (simp_all add: scenario_fs_def)
  note facts = C10_directory_persists_after_failed_move[OF ex text_A_not_empty cl mk mv src]
  from facts k old have fr: "fs (snd (process_new_file E ''./dropzone/invoice_q1.pdf'' scenario_world))
      [''dropzone'', ''invoice_q1_copy.pdf''] = Some (File ''Invoice #123 from Acme, second copy'')"
    by simp
  from facts mv fr old
  show ?thesis
    unfolding E_def[symmetric] by (simp add: scenario_paths d)
qed

text \<open>
  Claim C10 as stated fails. In the same environment, with the archive already holding
  a file at the computed path, the move raises after its copy has replaced that file:
  the workflow ends Failed and a file that was in the archive before has changed.
\<close>

theorem C10_archive_file_overwritten_counterexample:
  "fs archived_world [''organized_docs'', ''Invoice'', ''20240115_Invoice_Acme_Q1_Invoice.pdf''] =
     Some (File ''Invoice #123 from Acme'') \<and>
   fst (shutil_move
          (faulty_env (Some (PyExc ''PermissionError'' ''Permission denied'')) None
             (Some (PyExc ''PermissionError'' ''Permission denied'')))
          ''./dropzone/invoice_q1_copy.pdf''
          ''./organized_docs/Invoice/20240115_Invoice_Acme_Q1_Invoice.pdf''
          (snd (path_mkdir
                  (faulty_env (Some (PyExc ''PermissionError'' ''Permission denied'')) None
                     (Some (PyExc ''PermissionError'' ''Permission denied'')))
                  ''./organized_docs/Invoice'' archived_fs))) =
     Inl (PyExc ''PermissionError'' ''Permission denied'') \<and>
   fst (process_new_file
          (faulty_env (Some (PyExc ''PermissionError'' ''Permission denied'')) None
             (Some (PyExc ''PermissionError'' ''Permission denied'')))
          ''./dropzone/invoice_q1_copy.pdf'' archived_world) = Inr Failed \<and>
   fs (snd (process_new_file
          (faulty_env (Some (PyExc ''PermissionError'' ''Permission denied'')) None
             (Some (PyExc ''PermissionError'' ''Permission denied'')))
          ''./dropzone/invoice_q1_copy.pdf'' archived_world))
      [''organized_docs'', ''Invoice'', ''20240115_Invoice_Acme_Q1_Invoice.pdf''] =
     Some (File ''Invoice #123 from Acme, second copy'')"
proof -
  define E where "E = faulty_env (Some (PyExc ''PermissionError'' ''Permission denied'')) None
             (Some (PyExc ''PermissionError'' ''Permission denied''))"
  have ex: "fst (extract_text_from_pdf E ''./dropzone/invoice_q1_copy.pdf'' archived_world) =
              Some ''Invoice #123 from Acme, second copy''"
    by (rule archived_extract) (simp_all add: E_def)
  have cl: "fst (analyze_document_with_ai E ''Invoice #123 from Acme, second copy'' archived_world) =
              Inr (''Invoice'', ''Acme_Q1_Invoice'')"
    by (rule scenario_classify) (simp add: E_def)
  have d: "new_file_path_of E ''Invoice'' ''Acme_Q1_Invoice'' =
             ''./organized_docs/Invoice/20240115_Invoice_Acme_Q1_Invoice.pdf''"
    by (rule scenario_dest) (simp add: E_def)
  note r = process_routing(1,2)[OF ex text_B_not_empty cl]
  have mv: "shutil_move E ''./dropzone/invoice_q1_copy.pdf''
     ''./organized_docs/Invoice/20240115_Invoice_Acme_Q1_Invoice.pdf'' archived_fs =
   (Inl (PyExc ''PermissionError'' ''Permission denied''),
    archived_fs([''organized_docs'', ''Invoice'', ''20240115_Invoice_Acme_Q1_Invoice.pdf''] \<mapsto>
                  File ''Invoice #123 from Acme, second copy''))"
    unfolding E_def by (rule archived_move_unlink_denied)
  have a: "archived_fs [''organized_docs'', ''Invoice'', ''20240115_Invoice_Acme_Q1_Invoice.pdf''] =
     Some (File ''Invoice #123 from Acme'')"
    by (simp add: archived_fs_def)
  show ?thesis
    unfolding E_def[symmetric]
    using r a by (simp add: scenario_paths d archived_mkdir mv)
qed

end
